theory Spec2Isabelle
  imports Main "HOL-Library.AList"
begin

section \<open>Python values, exceptions and effects\<close>

text \<open>
  The server is a Python module (\<^verbatim>\<open>server.py\<close>). Its functions mutate a
  dictionary held by a \<^verbatim>\<open>BrowserlessManager\<close> object, a module-level global, and they
  talk to a remote browser through the selenium client. The embedding makes all of this
  explicit: exceptions are values of type \<open>error\<close>, a computation is a function from a
  state to a result and a new state, and the selenium client is a parameter that answers
  each call from the history of the calls made so far.

  A \<open>string\<close> stands for a Python \<^verbatim>\<open>str\<close> whose code points are below 256, one
  \<open>char\<close> for each code point.
\<close>

datatype error = ValueError string | Exception string

text \<open>
  \<^verbatim>\<open>str(e)\<close> of an exception built from one message. \<^verbatim>\<open>ValueError\<close> is a subclass
  of \<^verbatim>\<open>Exception\<close>, so \<^verbatim>\<open>except Exception\<close> catches every value of \<open>error\<close>.
  \<^verbatim>\<open>KeyboardInterrupt\<close> and \<^verbatim>\<open>SystemExit\<close>, which are no \<^verbatim>\<open>Exception\<close>, are not
  modelled.
\<close>

fun str :: "error \<Rightarrow> string" where
  "str (ValueError msg) = msg"
| "str (Exception msg) = msg"

type_synonym ('s, 'a) io = "'s \<Rightarrow> (error + 'a) \<times> 's"

definition returns :: "'a \<Rightarrow> ('s, 'a) io" where
  "returns v s = (Inr v, s)"

definition raise :: "error \<Rightarrow> ('s, 'a) io" where
  "raise e s = (Inl e, s)"

definition and_then :: "('s, 'a) io \<Rightarrow> ('a \<Rightarrow> ('s, 'b) io) \<Rightarrow> ('s, 'b) io" where
  "and_then f g s = (case f s of (Inl e, s') \<Rightarrow> (Inl e, s') | (Inr v, s') \<Rightarrow> g v s')"

text \<open>
  \<^verbatim>\<open>try: body  except Exception as e: handler\<close>. What the body did to the state before it
  raised stays done.
\<close>

definition try_except :: "('s, 'a) io \<Rightarrow> (error \<Rightarrow> ('s, 'a) io) \<Rightarrow> ('s, 'a) io" where
  "try_except body handler s =
     (case body s of (Inl e, s') \<Rightarrow> handler e s' | (Inr v, s') \<Rightarrow> (Inr v, s'))"

datatype pyval =
    VNone
  | VBool bool
  | VInt int
  | VStr string
  | VList "pyval list"
  | VDict "(string \<times> pyval) list"
  | VElement nat

section \<open>The selenium client\<close>

text \<open>
  A \<^verbatim>\<open>WebDriver\<close> object is known by its identity, a number given out when
  \<^verbatim>\<open>webdriver.Remote\<close> constructs it; two handles are the same object exactly when the
  numbers are equal. A \<^verbatim>\<open>WebElement\<close> is a number chosen by the client.
\<close>

type_synonym handle = nat
type_synonym element = nat

datatype By =
    CSS_SELECTOR | XPATH | ID | NAME | CLASS_NAME | TAG_NAME | LINK_TEXT | PARTIAL_LINK_TEXT

text \<open>
  The \<^verbatim>\<open>command_executor\<close> argument of \<^verbatim>\<open>webdriver.Remote\<close>: the bare endpoint string, or
  an \<^verbatim>\<open>AuthenticatedRemoteConnection\<close> built from the endpoint and the bearer token.
\<close>

datatype command_executor =
    ExecutorUrl string
  | AuthenticatedRemoteConnection string string

datatype options = ChromeOptions "string list" | FirefoxOptions "string list"

fun add_argument :: "string \<Rightarrow> options \<Rightarrow> options" where
  "add_argument a (ChromeOptions as) = ChromeOptions (as @ [a])"
| "add_argument a (FirefoxOptions as) = FirefoxOptions (as @ [a])"

text \<open>Every call made to the selenium client, in the order made.\<close>

datatype event =
    EvRemote command_executor options
  | EvQuit handle
  | EvGet handle string
  | EvUntilBody handle nat
  | EvTitle handle
  | EvCurrentUrl handle
  | EvPageSource handle
  | EvWindowHandle handle
  | EvFindElement handle By string
  | EvTagName element
  | EvText element
  | EvGetAttribute element string
  | EvLocation element
  | EvSize element
  | EvClick element
  | EvExecuteScript handle string
  | EvScreenshot handle

record world =
  trace :: "event list"
  next_handle :: nat

text \<open>
  What the client and the remote browser answer. Each field takes the calls made so far
  and the arguments of the call; \<open>Inl msg\<close> is an exception whose \<^verbatim>\<open>str\<close> is \<open>msg\<close>.
  \<open>validation_message\<close> is the text of pydantic's error when a response model refuses
  a value.
\<close>

record selenium =
  remote_reply :: "event list \<Rightarrow> command_executor \<Rightarrow> options \<Rightarrow> string + unit"
  quit_reply :: "event list \<Rightarrow> handle \<Rightarrow> string + unit"
  get_reply :: "event list \<Rightarrow> handle \<Rightarrow> string \<Rightarrow> string + unit"
  until_body_reply :: "event list \<Rightarrow> handle \<Rightarrow> nat \<Rightarrow> string + unit"
  title_reply :: "event list \<Rightarrow> handle \<Rightarrow> string + string"
  current_url_reply :: "event list \<Rightarrow> handle \<Rightarrow> string + string"
  page_source_reply :: "event list \<Rightarrow> handle \<Rightarrow> string + string"
  window_handle_reply :: "event list \<Rightarrow> handle \<Rightarrow> string + string"
  find_element_reply :: "event list \<Rightarrow> handle \<Rightarrow> By \<Rightarrow> string \<Rightarrow> string + element"
  tag_name_reply :: "event list \<Rightarrow> element \<Rightarrow> string + string"
  text_reply :: "event list \<Rightarrow> element \<Rightarrow> string + string"
  get_attribute_reply :: "event list \<Rightarrow> element \<Rightarrow> string \<Rightarrow> string + string option"
  location_reply :: "event list \<Rightarrow> element \<Rightarrow> string + (string \<times> int) list"
  size_reply :: "event list \<Rightarrow> element \<Rightarrow> string + (string \<times> int) list"
  click_reply :: "event list \<Rightarrow> element \<Rightarrow> string + unit"
  execute_script_reply :: "event list \<Rightarrow> handle \<Rightarrow> string \<Rightarrow> string + pyval"
  screenshot_reply :: "event list \<Rightarrow> handle \<Rightarrow> string + string"
  validation_message :: string

definition call :: "event \<Rightarrow> (event list \<Rightarrow> string + 'a) \<Rightarrow> (world, 'a) io" where
  "call ev reply w =
     (case reply (trace w) of
        Inl msg \<Rightarrow> (Inl (Exception msg), w\<lparr>trace := trace w @ [ev]\<rparr>)
      | Inr v \<Rightarrow> (Inr v, w\<lparr>trace := trace w @ [ev]\<rparr>))"

text \<open>\<^verbatim>\<open>webdriver.Remote(command_executor=..., options=...)\<close>: a new object on success.\<close>

definition Remote :: "selenium \<Rightarrow> command_executor \<Rightarrow> options \<Rightarrow> (world, handle) io" where
  "Remote sel ce opts =
     and_then (call (EvRemote ce opts) (\<lambda>t. remote_reply sel t ce opts))
       (\<lambda>_ w. (Inr (next_handle w), w\<lparr>next_handle := Suc (next_handle w)\<rparr>))"

definition quit :: "selenium \<Rightarrow> handle \<Rightarrow> (world, unit) io" where
  "quit sel d = call (EvQuit d) (\<lambda>t. quit_reply sel t d)"

definition driver_get :: "selenium \<Rightarrow> handle \<Rightarrow> string \<Rightarrow> (world, unit) io" where
  "driver_get sel d url = call (EvGet d url) (\<lambda>t. get_reply sel t d url)"

text \<open>
  \<^verbatim>\<open>WebDriverWait(driver, timeout).until(ec.presence_of_element_located((By.TAG_NAME,
  "body")))\<close>.
\<close>

definition until_body :: "selenium \<Rightarrow> handle \<Rightarrow> nat \<Rightarrow> (world, unit) io" where
  "until_body sel d timeout = call (EvUntilBody d timeout) (\<lambda>t. until_body_reply sel t d timeout)"

definition title :: "selenium \<Rightarrow> handle \<Rightarrow> (world, string) io" where
  "title sel d = call (EvTitle d) (\<lambda>t. title_reply sel t d)"

definition current_url :: "selenium \<Rightarrow> handle \<Rightarrow> (world, string) io" where
  "current_url sel d = call (EvCurrentUrl d) (\<lambda>t. current_url_reply sel t d)"

definition page_source :: "selenium \<Rightarrow> handle \<Rightarrow> (world, string) io" where
  "page_source sel d = call (EvPageSource d) (\<lambda>t. page_source_reply sel t d)"

definition current_window_handle :: "selenium \<Rightarrow> handle \<Rightarrow> (world, string) io" where
  "current_window_handle sel d = call (EvWindowHandle d) (\<lambda>t. window_handle_reply sel t d)"

definition driver_find_element ::
  "selenium \<Rightarrow> handle \<Rightarrow> By \<Rightarrow> string \<Rightarrow> (world, element) io" where
  "driver_find_element sel d b selector =
     call (EvFindElement d b selector) (\<lambda>t. find_element_reply sel t d b selector)"

definition tag_name :: "selenium \<Rightarrow> element \<Rightarrow> (world, string) io" where
  "tag_name sel el = call (EvTagName el) (\<lambda>t. tag_name_reply sel t el)"

definition element_text :: "selenium \<Rightarrow> element \<Rightarrow> (world, string) io" where
  "element_text sel el = call (EvText el) (\<lambda>t. text_reply sel t el)"

definition get_attribute :: "selenium \<Rightarrow> element \<Rightarrow> string \<Rightarrow> (world, string option) io" where
  "get_attribute sel el attr = call (EvGetAttribute el attr) (\<lambda>t. get_attribute_reply sel t el attr)"

definition location :: "selenium \<Rightarrow> element \<Rightarrow> (world, (string \<times> int) list) io" where
  "location sel el = call (EvLocation el) (\<lambda>t. location_reply sel t el)"

definition element_size :: "selenium \<Rightarrow> element \<Rightarrow> (world, (string \<times> int) list) io" where
  "element_size sel el = call (EvSize el) (\<lambda>t. size_reply sel t el)"

definition click :: "selenium \<Rightarrow> element \<Rightarrow> (world, unit) io" where
  "click sel el = call (EvClick el) (\<lambda>t. click_reply sel t el)"

definition execute_script :: "selenium \<Rightarrow> handle \<Rightarrow> string \<Rightarrow> (world, pyval) io" where
  "execute_script sel d script = call (EvExecuteScript d script) (\<lambda>t. execute_script_reply sel t d script)"

definition get_screenshot_as_base64 :: "selenium \<Rightarrow> handle \<Rightarrow> (world, string) io" where
  "get_screenshot_as_base64 sel d = call (EvScreenshot d) (\<lambda>t. screenshot_reply sel t d)"

text \<open>The handles on which \<^verbatim>\<open>quit()\<close> was called, and the connections asked for.\<close>

fun quit_calls :: "event list \<Rightarrow> handle list" where
  "quit_calls [] = []"
| "quit_calls (EvQuit d # es) = d # quit_calls es"
| "quit_calls (_ # es) = quit_calls es"

fun remote_calls :: "event list \<Rightarrow> (command_executor \<times> options) list" where
  "remote_calls [] = []"
| "remote_calls (EvRemote ce opts # es) = (ce, opts) # remote_calls es"
| "remote_calls (_ # es) = remote_calls es"

section \<open>The session registry: \<^verbatim>\<open>BrowserlessManager\<close>\<close>

text \<open>
  \<^verbatim>\<open>self.drivers\<close> is a Python dict: an association list with distinct keys, in
  insertion order. \<open>AList.update\<close> replaces the value of a key that is present in place
  and appends a new key, as \<^verbatim>\<open>d[k] = v\<close> does.
\<close>

record BrowserlessManager =
  browserless_url :: string
  auth_token :: "string option"
  drivers :: "(string \<times> handle) list"

definition rstrip :: "char \<Rightarrow> string \<Rightarrow> string" where
  "rstrip c s = rev (dropWhile (\<lambda>x. x = c) (rev s))"

definition BrowserlessManager_init :: "string \<Rightarrow> string option \<Rightarrow> BrowserlessManager" where
  "BrowserlessManager_init url token =
     \<lparr>browserless_url = rstrip CHR ''/'' url, auth_token = token, drivers = []\<rparr>"

text \<open>
  A method runs on the object and the world. \<^verbatim>\<open>create_driver\<close> (lines 97 to 137 of
  \<^verbatim>\<open>server.py\<close>) builds the options, picks the authenticated connection when
  \<^verbatim>\<open>self.auth_token\<close> is truthy, calls \<^verbatim>\<open>webdriver.Remote\<close> outside any \<^verbatim>\<open>try\<close>, and only
  then stores the driver. \<^verbatim>\<open>get_driver\<close> (lines 139 to 141) is \<^verbatim>\<open>self.drivers.get\<close>.
  \<^verbatim>\<open>close_driver\<close> (lines 143 to 150) tests \<^verbatim>\<open>session_id in self.drivers\<close>, calls \<^verbatim>\<open>quit()\<close>
  under \<^verbatim>\<open>try ... except Exception: pass\<close>, then deletes the key. \<^verbatim>\<open>close_all\<close> (lines 152
  to 155) closes each key of \<^verbatim>\<open>list(self.drivers.keys())\<close> in turn.
\<close>

definition in_world :: "(world, 'a) io \<Rightarrow> ('m \<times> world, 'a) io" where
  "in_world f = (\<lambda>(self, w). case f w of (r, w') \<Rightarrow> (r, (self, w')))"

definition create_driver ::
  "selenium \<Rightarrow> string \<Rightarrow> string \<Rightarrow> (BrowserlessManager \<times> world, handle) io" where
  "create_driver sel session_id browser = (\<lambda>(self, w).
     let opts = add_argument ''--disable-gpu''
                  (add_argument ''--disable-dev-shm-usage''
                    (add_argument ''--no-sandbox''
                      (if browser = ''chrome'' then ChromeOptions [] else FirefoxOptions [])));
         executor_url = browserless_url self @ ''/webdriver'';
         command_executor =
           (case auth_token self of
              None \<Rightarrow> ExecutorUrl executor_url
            | Some t \<Rightarrow> if t \<noteq> [] then AuthenticatedRemoteConnection executor_url t
                        else ExecutorUrl executor_url)
     in and_then (in_world (Remote sel command_executor opts))
          (\<lambda>driver (self', w').
             (Inr driver, (self'\<lparr>drivers := AList.update session_id driver (drivers self')\<rparr>, w')))
          (self, w))"

definition get_driver :: "string \<Rightarrow> BrowserlessManager \<Rightarrow> handle option" where
  "get_driver session_id self = map_of (drivers self) session_id"

definition close_driver :: "selenium \<Rightarrow> string \<Rightarrow> (BrowserlessManager \<times> world, unit) io" where
  "close_driver sel session_id = (\<lambda>(self, w).
     case map_of (drivers self) session_id of
       None \<Rightarrow> (Inr (), (self, w))
     | Some d \<Rightarrow>
         and_then (in_world (try_except (quit sel d) (\<lambda>e. returns ())))
           (\<lambda>_ (self', w'). (Inr (), (self'\<lparr>drivers := AList.delete session_id (drivers self')\<rparr>, w')))
           (self, w))"

fun close_each :: "selenium \<Rightarrow> string list \<Rightarrow> (BrowserlessManager \<times> world, unit) io" where
  "close_each sel [] s = (Inr (), s)"
| "close_each sel (session_id # rest) s =
     (case close_driver sel session_id s of
        (Inl e, s') \<Rightarrow> (Inl e, s')
      | (Inr _, s') \<Rightarrow> close_each sel rest s')"

definition close_all :: "selenium \<Rightarrow> (BrowserlessManager \<times> world, unit) io" where
  "close_all sel = (\<lambda>(self, w). close_each sel (map fst (drivers self)) (self, w))"

subsection \<open>Sequences of registry operations\<close>

text \<open>
  The four operations of the registry, as a caller may issue them one after another on
  one \<^verbatim>\<open>BrowserlessManager\<close>. \<^verbatim>\<open>get_driver\<close> only reads. A failed \<^verbatim>\<open>create_driver\<close>
  raises to the caller; the registry is then as it was and the next operation runs on it.
\<close>

datatype registry_op = Create string string | Get string | Close string | CloseAll

fun run_op :: "selenium \<Rightarrow> registry_op \<Rightarrow> BrowserlessManager \<times> world \<Rightarrow> BrowserlessManager \<times> world" where
  "run_op sel (Create session_id browser) st = snd (create_driver sel session_id browser st)"
| "run_op sel (Get session_id) st = st"
| "run_op sel (Close session_id) st = snd (close_driver sel session_id st)"
| "run_op sel CloseAll st = snd (close_all sel st)"

fun run_ops :: "selenium \<Rightarrow> registry_op list \<Rightarrow> BrowserlessManager \<times> world \<Rightarrow> BrowserlessManager \<times> world" where
  "run_ops sel [] st = st"
| "run_ops sel (ro # ros) st = run_ops sel ros (run_op sel ro st)"

text \<open>The operations that can change what a session identifier maps to.\<close>

fun touches :: "string \<Rightarrow> registry_op \<Rightarrow> bool" where
  "touches s (Create session_id browser) = (session_id = s)"
| "touches s (Get session_id) = False"
| "touches s (Close session_id) = (session_id = s)"
| "touches s CloseAll = True"

text \<open>The world of a process that has made no call yet.\<close>

definition fresh_world :: world where
  "fresh_world = \<lparr>trace = [], next_handle = 0\<rparr>"

text \<open>
  The invariant behind the liveness of the entries: the handles in the dictionary are
  pairwise different, each was given out already and was never passed to \<^verbatim>\<open>quit\<close>, and
  every handle passed to \<^verbatim>\<open>quit\<close> was given out already.
\<close>

definition live_inv :: "BrowserlessManager \<times> world \<Rightarrow> bool" where
  "live_inv = (\<lambda>(self, w).
     distinct (map snd (drivers self)) \<and>
     (\<forall>d \<in> snd ` set (drivers self). d < next_handle w \<and> d \<notin> set (quit_calls (trace w))) \<and>
     (\<forall>d \<in> set (quit_calls (trace w)). d < next_handle w))"

section \<open>The process: environment, the global registry and the tools\<close>

text \<open>
  \<^verbatim>\<open>browserless_manager\<close> is a module-level global that holds \<^verbatim>\<open>None\<close> or a reference to
  a \<^verbatim>\<open>BrowserlessManager\<close> object. Objects live in a store; a reference is an address
  in it, so that two references are the same object exactly when they are equal.
  \<open>environ\<close> is \<^verbatim>\<open>os.environ\<close>.
\<close>

record process =
  environ :: "string \<Rightarrow> string option"
  browserless_manager :: "nat option"
  objects :: "nat \<Rightarrow> BrowserlessManager"
  next_object :: nat
  world_of :: world

definition on_world :: "(world, 'a) io \<Rightarrow> (process, 'a) io" where
  "on_world f st = (case f (world_of st) of (r, w') \<Rightarrow> (r, st\<lparr>world_of := w'\<rparr>))"

definition on_manager :: "nat \<Rightarrow> (BrowserlessManager \<times> world, 'a) io \<Rightarrow> (process, 'a) io" where
  "on_manager manager f st =
     (case f (objects st manager, world_of st) of
        (r, (self', w')) \<Rightarrow> (r, st\<lparr>objects := (objects st)(manager := self'), world_of := w'\<rparr>))"

text \<open>
  \<^verbatim>\<open>get_browserless_manager\<close> (lines 162 to 174): when the global is \<^verbatim>\<open>None\<close>, read
  \<^verbatim>\<open>BROWSERLESS_URL\<close>, raise \<^verbatim>\<open>ValueError\<close> when \<^verbatim>\<open>not browserless_url\<close> (unset or empty),
  read \<^verbatim>\<open>BROWSERLESS_TOKEN\<close>, construct the registry and assign the global; return the
  global.
\<close>

definition get_browserless_manager :: "(process, nat) io" where
  "get_browserless_manager st =
     (case browserless_manager st of
        Some manager \<Rightarrow> (Inr manager, st)
      | None \<Rightarrow>
          (case environ st ''BROWSERLESS_URL'' of
             None \<Rightarrow> (Inl (ValueError ''BROWSERLESS_URL environment variable is required''), st)
           | Some url \<Rightarrow>
               if url = [] then (Inl (ValueError ''BROWSERLESS_URL environment variable is required''), st)
               else
                 let token = environ st ''BROWSERLESS_TOKEN'';
                     manager = next_object st
                 in (Inr manager,
                     st\<lparr>browserless_manager := Some manager,
                        objects := (objects st)(manager := BrowserlessManager_init url token),
                        next_object := Suc manager\<rparr>)))"

subsection \<open>Response models\<close>

text \<open>
  The pydantic response models (lines 29 to 86), each with its fields in the order of the
  class, and \<open>fields\<close>, the dictionary of a model's fields by name. \<^verbatim>\<open>ElementInfo\<close> and
  \<^verbatim>\<open>PageInfo\<close> declare no \<^verbatim>\<open>success\<close>.
\<close>

datatype tool_result =
    NavigateResponse string string bool
  | ElementInfo string string "(string \<times> string) list" "(string \<times> int) list" "(string \<times> int) list"
  | ClickResponse bool string string
  | ScriptResponse bool pyval
  | ScreenshotResponse string bool
  | PageInfo string string int string
  | CloseResponse bool string

fun fields :: "tool_result \<Rightarrow> (string \<times> pyval) list" where
  "fields (NavigateResponse t u s) =
     [(''title'', VStr t), (''current_url'', VStr u), (''success'', VBool s)]"
| "fields (ElementInfo tag txt attrs loc sz) =
     [(''tag_name'', VStr tag), (''text'', VStr txt),
      (''attributes'', VDict (map (\<lambda>(k, v). (k, VStr v)) attrs)),
      (''location'', VDict (map (\<lambda>(k, v). (k, VInt v)) loc)),
      (''size'', VDict (map (\<lambda>(k, v). (k, VInt v)) sz))]"
| "fields (ClickResponse s t u) =
     [(''success'', VBool s), (''new_title'', VStr t), (''new_url'', VStr u)]"
| "fields (ScriptResponse s r) = [(''success'', VBool s), (''result'', r)]"
| "fields (ScreenshotResponse shot s) = [(''screenshot'', VStr shot), (''success'', VBool s)]"
| "fields (PageInfo t u n h) =
     [(''title'', VStr t), (''url'', VStr u), (''page_source_length'', VInt n),
      (''window_handle'', VStr h)]"
| "fields (CloseResponse s m) = [(''success'', VBool s), (''message'', VStr m)]"

subsection \<open>Locator strategies\<close>

text \<open>
  \<^verbatim>\<open>str.lower()\<close> on code points below 256: the letters A to Z and the Latin-1 capitals
  (U+00C0 to U+00DE without the multiplication sign U+00D7) move up by 32.
\<close>

definition lower_char :: "char \<Rightarrow> char" where
  "lower_char c =
     (let n = (of_char c :: nat)
      in if (65 \<le> n \<and> n \<le> 90) \<or> (192 \<le> n \<and> n \<le> 222 \<and> n \<noteq> 215)
         then char_of (n + 32) else c)"

definition lower :: "string \<Rightarrow> string" where
  "lower s = map lower_char s"

text \<open>
  The dictionary literal that \<^verbatim>\<open>find_element\<close> and \<^verbatim>\<open>click_element\<close> both write out, and
  \<^verbatim>\<open>{...}.get(params.by.lower(), By.CSS_SELECTOR)\<close>.
\<close>

definition by_method_table :: "(string \<times> By) list" where
  "by_method_table =
     [(''css'', CSS_SELECTOR), (''xpath'', XPATH), (''id'', ID), (''name'', NAME),
      (''class_name'', CLASS_NAME), (''tag_name'', TAG_NAME), (''link_text'', LINK_TEXT),
      (''partial_link_text'', PARTIAL_LINK_TEXT)]"

definition by_method :: "string \<Rightarrow> By" where
  "by_method by_arg =
     (case map_of by_method_table (lower by_arg) of Some b \<Rightarrow> b | None \<Rightarrow> CSS_SELECTOR)"

subsection \<open>Tools\<close>

text \<open>
  Each tool first calls \<^verbatim>\<open>get_browserless_manager()\<close>, outside its \<^verbatim>\<open>try\<close>. The tools
  other than \<^verbatim>\<open>navigate_to_url\<close> and \<^verbatim>\<open>close_browser\<close> then call \<^verbatim>\<open>get_driver\<close> and raise
  when \<^verbatim>\<open>not driver\<close>; a \<^verbatim>\<open>WebDriver\<close> object is always truthy, so this is the test for
  \<^verbatim>\<open>None\<close>. The body of the \<^verbatim>\<open>try\<close> follows, call by call in the order of evaluation, and
  \<^verbatim>\<open>except Exception as e\<close> raises a new \<^verbatim>\<open>Exception\<close> whose message ends in \<^verbatim>\<open>str(e)\<close>.
  The tools are \<^verbatim>\<open>async\<close> functions without an \<^verbatim>\<open>await\<close>: each runs to its end before the
  next one starts. The session identifier is \<^verbatim>\<open>ctx.session_id\<close>.
\<close>

definition no_active_session :: error where
  "no_active_session = Exception ''No active browser session. Please navigate to a URL first.''"

text \<open>
  \<^verbatim>\<open>manager.get_driver(session_id) or manager.create_driver(session_id)\<close> (line 215).
\<close>

definition get_or_create :: "selenium \<Rightarrow> nat \<Rightarrow> string \<Rightarrow> (process, handle) io" where
  "get_or_create sel manager session_id st =
     (case get_driver session_id (objects st manager) of
        Some driver \<Rightarrow> (Inr driver, st)
      | None \<Rightarrow> on_manager manager (create_driver sel session_id ''chrome'') st)"

text \<open>The resource \<^verbatim>\<open>browser://{url}\<close> (lines 177 to 203) and \<^verbatim>\<open>navigate_to_url\<close> (lines 206 to 230).\<close>

definition get_browser_content :: "selenium \<Rightarrow> string \<Rightarrow> string \<Rightarrow> (process, string) io" where
  "get_browser_content sel url session_id =
     and_then get_browserless_manager (\<lambda>manager.
       try_except
         (and_then (on_manager manager (create_driver sel session_id ''chrome'')) (\<lambda>driver.
          and_then (on_world (driver_get sel driver url)) (\<lambda>_.
          and_then (on_world (until_body sel driver 10)) (\<lambda>_.
          on_world (page_source sel driver)))))
         (\<lambda>e. raise (Exception (''Failed to get content from '' @ url @ '': '' @ str e))))"

definition navigate_to_url :: "selenium \<Rightarrow> string \<Rightarrow> string \<Rightarrow> (process, tool_result) io" where
  "navigate_to_url sel url session_id =
     and_then get_browserless_manager (\<lambda>manager.
       try_except
         (and_then (get_or_create sel manager session_id) (\<lambda>driver.
          and_then (on_world (driver_get sel driver url)) (\<lambda>_.
          and_then (on_world (until_body sel driver 10)) (\<lambda>_.
          and_then (on_world (title sel driver)) (\<lambda>t.
          and_then (on_world (current_url sel driver)) (\<lambda>u.
          returns (NavigateResponse t u True)))))))
         (\<lambda>e. raise (Exception (''Failed to navigate to '' @ url @ '': '' @ str e))))"

text \<open>
  \<^verbatim>\<open>find_element\<close> (lines 233 to 272). The dict comprehension: for each name, \<^verbatim>\<open>get_attribute\<close> is called
  for the test, and called again for the value when the first answer is truthy.
\<close>

fun collect_attributes ::
  "selenium \<Rightarrow> element \<Rightarrow> string list \<Rightarrow> (world, (string \<times> string option) list) io" where
  "collect_attributes sel el [] w = (Inr [], w)"
| "collect_attributes sel el (attr # rest) w =
     (case get_attribute sel el attr w of
        (Inl e, w1) \<Rightarrow> (Inl e, w1)
      | (Inr test, w1) \<Rightarrow>
          if test \<noteq> None \<and> test \<noteq> Some [] then
            (case get_attribute sel el attr w1 of
               (Inl e, w2) \<Rightarrow> (Inl e, w2)
             | (Inr v, w2) \<Rightarrow>
                 (case collect_attributes sel el rest w2 of
                    (Inl e, w3) \<Rightarrow> (Inl e, w3)
                  | (Inr kvs, w3) \<Rightarrow> (Inr ((attr, v) # kvs), w3)))
          else collect_attributes sel el rest w1)"

text \<open>
  \<^verbatim>\<open>attributes: Dict[str, str]\<close>: pydantic refuses a dictionary that holds \<^verbatim>\<open>None\<close>.
\<close>

fun validate_attributes :: "(string \<times> string option) list \<Rightarrow> (string \<times> string) list option" where
  "validate_attributes [] = Some []"
| "validate_attributes ((k, None) # kvs) = None"
| "validate_attributes ((k, Some v) # kvs) =
     (case validate_attributes kvs of None \<Rightarrow> None | Some r \<Rightarrow> Some ((k, v) # r))"

definition find_element ::
  "selenium \<Rightarrow> string \<Rightarrow> string \<Rightarrow> string \<Rightarrow> (process, tool_result) io" where
  "find_element sel selector by_arg session_id =
     and_then get_browserless_manager (\<lambda>manager st.
       case get_driver session_id (objects st manager) of
         None \<Rightarrow> raise no_active_session st
       | Some driver \<Rightarrow>
           try_except
             (and_then (on_world (driver_find_element sel driver (by_method by_arg) selector)) (\<lambda>el.
              and_then (on_world (tag_name sel el)) (\<lambda>tag.
              and_then (on_world (element_text sel el)) (\<lambda>txt.
              and_then (on_world (collect_attributes sel el [''id'', ''class'', ''name'', ''href'', ''src''])) (\<lambda>attrs.
              and_then (on_world (location sel el)) (\<lambda>loc.
              and_then (on_world (element_size sel el)) (\<lambda>sz.
                case validate_attributes attrs of
                  None \<Rightarrow> raise (Exception (validation_message sel))
                | Some attributes \<Rightarrow> returns (ElementInfo tag txt attributes loc sz))))))))
             (\<lambda>e. raise (Exception (''Failed to find element with '' @ by_arg @ '' selector ''
                      @ [CHR 0x27] @ selector @ [CHR 0x27] @ '': '' @ str e)))
             st)"

text \<open>
  \<^verbatim>\<open>click_element\<close> (lines 275 to 314), \<^verbatim>\<open>execute_javascript\<close> (lines 317 to 337),
  \<^verbatim>\<open>take_screenshot\<close> (lines 340 to 360), \<^verbatim>\<open>close_browser\<close> (lines 363 to 372), which has
  no \<^verbatim>\<open>try\<close>, and \<^verbatim>\<open>get_page_info\<close> (lines 375 to 396).
\<close>

definition click_element ::
  "selenium \<Rightarrow> string \<Rightarrow> string \<Rightarrow> string \<Rightarrow> (process, tool_result) io" where
  "click_element sel selector by_arg session_id =
     and_then get_browserless_manager (\<lambda>manager st.
       case get_driver session_id (objects st manager) of
         None \<Rightarrow> raise no_active_session st
       | Some driver \<Rightarrow>
           try_except
             (and_then (on_world (driver_find_element sel driver (by_method by_arg) selector)) (\<lambda>el.
              and_then (on_world (click sel el)) (\<lambda>_.
              and_then (on_world (until_body sel driver 5)) (\<lambda>_.
              and_then (on_world (title sel driver)) (\<lambda>t.
              and_then (on_world (current_url sel driver)) (\<lambda>u.
              returns (ClickResponse True t u)))))))
             (\<lambda>e. raise (Exception (''Failed to click element with '' @ by_arg @ '' selector ''
                      @ [CHR 0x27] @ selector @ [CHR 0x27] @ '': '' @ str e)))
             st)"

definition execute_javascript :: "selenium \<Rightarrow> string \<Rightarrow> string \<Rightarrow> (process, tool_result) io" where
  "execute_javascript sel script session_id =
     and_then get_browserless_manager (\<lambda>manager st.
       case get_driver session_id (objects st manager) of
         None \<Rightarrow> raise no_active_session st
       | Some driver \<Rightarrow>
           try_except
             (and_then (on_world (execute_script sel driver script)) (\<lambda>result.
              returns (ScriptResponse True result)))
             (\<lambda>e. raise (Exception (''Failed to execute JavaScript: '' @ str e)))
             st)"

definition take_screenshot :: "selenium \<Rightarrow> string \<Rightarrow> (process, tool_result) io" where
  "take_screenshot sel session_id =
     and_then get_browserless_manager (\<lambda>manager st.
       case get_driver session_id (objects st manager) of
         None \<Rightarrow> raise no_active_session st
       | Some driver \<Rightarrow>
           try_except
             (and_then (on_world (get_screenshot_as_base64 sel driver)) (\<lambda>screenshot.
              returns (ScreenshotResponse (''data:image/png;base64,'' @ screenshot) True)))
             (\<lambda>e. raise (Exception (''Failed to take screenshot: '' @ str e)))
             st)"

definition close_browser :: "selenium \<Rightarrow> string \<Rightarrow> (process, tool_result) io" where
  "close_browser sel session_id =
     and_then get_browserless_manager (\<lambda>manager.
       and_then (on_manager manager (close_driver sel session_id)) (\<lambda>_.
       returns (CloseResponse True ''Browser session closed'')))"

definition get_page_info :: "selenium \<Rightarrow> string \<Rightarrow> (process, tool_result) io" where
  "get_page_info sel session_id =
     and_then get_browserless_manager (\<lambda>manager st.
       case get_driver session_id (objects st manager) of
         None \<Rightarrow> raise no_active_session st
       | Some driver \<Rightarrow>
           try_except
             (and_then (on_world (title sel driver)) (\<lambda>t.
              and_then (on_world (current_url sel driver)) (\<lambda>u.
              and_then (on_world (page_source sel driver)) (\<lambda>src.
              and_then (on_world (current_window_handle sel driver)) (\<lambda>h.
              returns (PageInfo t u (int (length src)) h))))))
             (\<lambda>e. raise (Exception (''Failed to get page info: '' @ str e)))
             st)"

text \<open>
  The seven tools behind one entry point: the tool with its arguments, then the session
  identifier that the context of the call carries.
\<close>

datatype tool_call =
    NavigateToUrl string
  | FindElement string string
  | ClickElement string string
  | ExecuteJavascript string
  | TakeScreenshot
  | CloseBrowser
  | GetPageInfo

fun invoke :: "selenium \<Rightarrow> tool_call \<Rightarrow> string \<Rightarrow> (process, tool_result) io" where
  "invoke sel (NavigateToUrl url) session_id = navigate_to_url sel url session_id"
| "invoke sel (FindElement selector by_arg) session_id = find_element sel selector by_arg session_id"
| "invoke sel (ClickElement selector by_arg) session_id = click_element sel selector by_arg session_id"
| "invoke sel (ExecuteJavascript script) session_id = execute_javascript sel script session_id"
| "invoke sel TakeScreenshot session_id = take_screenshot sel session_id"
| "invoke sel CloseBrowser session_id = close_browser sel session_id"
| "invoke sel GetPageInfo session_id = get_page_info sel session_id"

fun run_calls :: "selenium \<Rightarrow> (tool_call \<times> string) list \<Rightarrow> process \<Rightarrow> process" where
  "run_calls sel [] st = st"
| "run_calls sel ((c, session_id) # cs) st = run_calls sel cs (snd (invoke sel c session_id st))"

subsection \<open>What a computation leaves alone\<close>

text \<open>
  \<open>quiet\<close> calls open no connection and close none. A \<open>world_only\<close> computation
  changes nothing in the process but the trace, which it extends by quiet calls. Two
  processes have the \<open>same_globals\<close> when the environment, the global and the allocation
  of registry objects agree.
\<close>

definition quiet :: "event list \<Rightarrow> bool" where
  "quiet suf = (remote_calls suf = [] \<and> quit_calls suf = [])"

definition world_only :: "(process, 'a) io \<Rightarrow> bool" where
  "world_only f =
     (\<forall>st. \<exists>suf. quiet suf \<and>
        snd (f st) = st\<lparr>world_of := (world_of st)\<lparr>trace := trace (world_of st) @ suf\<rparr>\<rparr>)"

definition same_globals :: "process \<Rightarrow> process \<Rightarrow> bool" where
  "same_globals st st' =
     (browserless_manager st' = browserless_manager st \<and> next_object st' = next_object st \<and>
      environ st' = environ st)"

subsection \<open>Concrete clients and processes\<close>

text \<open>
  A client whose every call succeeds, and one whose \<^verbatim>\<open>quit\<close> always raises.
\<close>

definition sel_ok :: selenium where
  "sel_ok = \<lparr>
     remote_reply = (\<lambda>_ _ _. Inr ()),
     quit_reply = (\<lambda>_ _. Inr ()),
     get_reply = (\<lambda>_ _ _. Inr ()),
     until_body_reply = (\<lambda>_ _ _. Inr ()),
     title_reply = (\<lambda>_ _. Inr ''Example Domain''),
     current_url_reply = (\<lambda>_ _. Inr ''https://example.com/''),
     page_source_reply = (\<lambda>_ _. Inr ''<html><body></body></html>''),
     window_handle_reply = (\<lambda>_ _. Inr ''window-1''),
     find_element_reply = (\<lambda>_ _ _ _. Inr 7),
     tag_name_reply = (\<lambda>_ _. Inr ''a''),
     text_reply = (\<lambda>_ _. Inr ''More information''),
     get_attribute_reply = (\<lambda>_ _ attr. Inr (if attr = ''href'' then Some ''https://www.iana.org/'' else None)),
     location_reply = (\<lambda>_ _. Inr [(''x'', 10), (''y'', 20)]),
     size_reply = (\<lambda>_ _. Inr [(''height'', 18), (''width'', 120)]),
     click_reply = (\<lambda>_ _. Inr ()),
     execute_script_reply = (\<lambda>_ _ _. Inr (VInt 42)),
     screenshot_reply = (\<lambda>_ _. Inr ''iVBORw0KGgo=''),
     validation_message = ''validation error'' \<rparr>"

definition sel_quit_fails :: selenium where
  "sel_quit_fails = sel_ok\<lparr>quit_reply := (\<lambda>_ _. Inl ''connection refused'')\<rparr>"

text \<open>
  A process that has read nothing yet, one whose registry exists with no session, and one
  where the session \<^verbatim>\<open>s1\<close> owns the handle 0.
\<close>

definition st_boot :: process where
  "st_boot = \<lparr>
     environ = [''BROWSERLESS_URL'' \<mapsto> ''http://localhost:3000/''],
     browserless_manager = None,
     objects = (\<lambda>_. BrowserlessManager_init [] None),
     next_object = 0,
     world_of = fresh_world \<rparr>"

definition st_ready :: process where
  "st_ready = st_boot\<lparr>
     browserless_manager := Some 0,
     objects := (\<lambda>_. BrowserlessManager_init ''http://localhost:3000/'' None),
     next_object := 1 \<rparr>"

definition st_session :: process where
  "st_session = st_ready\<lparr>
     objects := (\<lambda>_. \<lparr>browserless_url = ''http://localhost:3000'', auth_token = None,
                        drivers = [(''s1'', 0)]\<rparr>),
     world_of := \<lparr>trace = [], next_handle = 1\<rparr> \<rparr>"

section \<open>Lemmas\<close>

subsection \<open>Registry methods\<close>

lemma quit_calls_append: "quit_calls (xs @ ys) = quit_calls xs @ quit_calls ys"
  by (induction xs rule: quit_calls.induct) simp_all

lemma call_world: "call ev reply w = (r, w') \<Longrightarrow> w' = w\<lparr>trace := trace w @ [ev]\<rparr>"
  by (auto simp: call_def split: sum.splits)

lemma Remote_Inr:
  "Remote sel ce opts w = (Inr d, w') \<Longrightarrow>
     d = next_handle w \<and> w' = \<lparr>trace = trace w @ [EvRemote ce opts], next_handle = Suc (next_handle w)\<rparr>"
  by (auto simp: Remote_def and_then_def call_def split: sum.splits prod.splits)

lemma Remote_Inl:
  "Remote sel ce opts w = (Inl e, w') \<Longrightarrow> w' = w\<lparr>trace := trace w @ [EvRemote ce opts]\<rparr>"
  by (auto simp: Remote_def and_then_def call_def split: sum.splits prod.splits)

lemma create_driver_Inr:
  assumes "create_driver sel s b (self, w) = (Inr d, (self', w'))"
  shows "d = next_handle w" and "self' = self\<lparr>drivers := AList.update s d (drivers self)\<rparr>"
    and "next_handle w' = Suc (next_handle w)"
    and "\<exists>ce opts. trace w' = trace w @ [EvRemote ce opts]"
  using assms
  by (auto simp: create_driver_def Let_def and_then_def in_world_def
      split: sum.splits prod.splits dest!: Remote_Inr)

lemma create_driver_Inl:
  assumes "create_driver sel s b (self, w) = (Inl e, (self', w'))"
  shows "self' = self" and "next_handle w' = next_handle w"
    and "\<exists>ce opts. trace w' = trace w @ [EvRemote ce opts]"
  using assms
  by (auto simp: create_driver_def Let_def and_then_def in_world_def
      split: sum.splits prod.splits dest!: Remote_Inl)

lemma close_driver_absent:
  "map_of (drivers self) s = None \<Longrightarrow> close_driver sel s (self, w) = (Inr (), (self, w))"
  by (simp add: close_driver_def)

lemma close_driver_present:
  "map_of (drivers self) s = Some d \<Longrightarrow>
   close_driver sel s (self, w) =
     (Inr (), (self\<lparr>drivers := AList.delete s (drivers self)\<rparr>, w\<lparr>trace := trace w @ [EvQuit d]\<rparr>))"
  by (auto simp: close_driver_def and_then_def in_world_def try_except_def quit_def call_def returns_def
      split: sum.splits prod.splits)

lemma set_update_subset: "set (AList.update k v al) \<subseteq> insert (k, v) (set al)"
  by (induction al) auto

lemma snd_update_subset: "snd ` set (AList.update k v al) \<subseteq> insert v (snd ` set al)"
proof
  fix x assume "x \<in> snd ` set (AList.update k v al)"
  then obtain p where p: "p \<in> set (AList.update k v al)" and x: "x = snd p" by blast
  from p set_update_subset [of k v al] have "p = (k, v) \<or> p \<in> set al" by blast
  with x show "x \<in> insert v (snd ` set al)" by auto
qed

lemma distinct_snd_update:
  "distinct (map snd al) \<Longrightarrow> v \<notin> snd ` set al \<Longrightarrow> distinct (map snd (AList.update k v al))"
proof (induction al)
  case Nil
  then show ?case by simp
next
  case (Cons p al)
  show ?case
  proof (cases "fst p = k")
    case True
    with Cons.prems show ?thesis by simp
  next
    case False
    from Cons.prems have d: "distinct (map snd al)" and v: "v \<notin> snd ` set al"
      and p: "snd p \<notin> snd ` set al" and pv: "snd p \<noteq> v" by auto
    from p pv snd_update_subset [of k v al] have "snd p \<notin> snd ` set (AList.update k v al)"
      by blast
    with False Cons.IH [OF d v] show ?thesis by simp
  qed
qed

lemma distinct_snd_delete: "distinct (map snd al) \<Longrightarrow> distinct (map snd (AList.delete k al))"
  by (simp add: AList.delete_eq distinct_map_filter)

lemma delete_other_handles:
  assumes "distinct (map snd al)" and "map_of al k = Some d"
  shows "d \<notin> snd ` set (AList.delete k al)"
proof
  assume "d \<in> snd ` set (AList.delete k al)"
  then obtain p where p: "p \<in> set (AList.delete k al)" and dp: "d = snd p" by blast
  from p have k': "fst p \<noteq> k" and mem: "p \<in> set al" by (auto simp: AList.delete_eq)
  have kd: "(k, d) \<in> set al" using assms(2) by (rule map_of_SomeD)
  from assms(1) have "inj_on snd (set al)" by (simp add: distinct_map)
  moreover have "snd p = snd (k, d)" by (simp add: dp)
  ultimately have "p = (k, d)" using mem kd by (simp add: inj_on_def)
  with k' show False by simp
qed

lemma live_invI:
  assumes "distinct (map snd (drivers self))"
    and "\<And>x. x \<in> snd ` set (drivers self) \<Longrightarrow> x < next_handle w"
    and "\<And>x. x \<in> snd ` set (drivers self) \<Longrightarrow> x \<notin> set (quit_calls (trace w))"
    and "\<And>x. x \<in> set (quit_calls (trace w)) \<Longrightarrow> x < next_handle w"
  shows "live_inv (self, w)"
  using assms unfolding live_inv_def by auto

lemma live_invD:
  assumes "live_inv (self, w)"
  shows "distinct (map snd (drivers self))"
    and "\<And>x. x \<in> snd ` set (drivers self) \<Longrightarrow> x < next_handle w"
    and "\<And>x. x \<in> snd ` set (drivers self) \<Longrightarrow> x \<notin> set (quit_calls (trace w))"
    and "\<And>x. x \<in> set (quit_calls (trace w)) \<Longrightarrow> x < next_handle w"
  using assms unfolding live_inv_def by auto

lemma live_inv_create: "live_inv st \<Longrightarrow> live_inv (snd (create_driver sel s b st))"
proof -
  assume inv: "live_inv st"
  obtain self w where st: "st = (self, w)" by (cases st)
  note I = live_invD [OF inv [unfolded st]]
  obtain r self' w' where res: "create_driver sel s b (self, w) = (r, (self', w'))"
    by (metis prod.exhaust)
  have "live_inv (self', w')"
  proof (cases r)
    case (Inl e)
    with res have eq: "self' = self" "next_handle w' = next_handle w"
      and tr: "\<exists>ce opts. trace w' = trace w @ [EvRemote ce opts]"
      by (auto dest: create_driver_Inl)
    from tr have q: "quit_calls (trace w') = quit_calls (trace w)"
      by (auto simp: quit_calls_append)
    show ?thesis
      by (rule live_invI) (simp_all add: eq q I)
  next
    case (Inr d)
    with res have d: "d = next_handle w"
      and self': "self' = self\<lparr>drivers := AList.update s d (drivers self)\<rparr>"
      and nh: "next_handle w' = Suc (next_handle w)"
      and tr: "\<exists>ce opts. trace w' = trace w @ [EvRemote ce opts]"
      by (auto dest: create_driver_Inr)
    from tr have q: "quit_calls (trace w') = quit_calls (trace w)"
      by (auto simp: quit_calls_append)
    have fresh1: "d \<notin> snd ` set (drivers self)"
      using I(2) [of d] d by auto
    have fresh2: "d \<notin> set (quit_calls (trace w))"
      using I(4) [of d] d by auto
    have sub: "snd ` set (AList.update s d (drivers self)) \<subseteq> insert d (snd ` set (drivers self))"
      by (rule snd_update_subset)
    show ?thesis
    proof (rule live_invI)
      show "distinct (map snd (drivers self'))"
        unfolding self' using I(1) fresh1 by (simp add: distinct_snd_update)
    next
      fix x assume "x \<in> snd ` set (drivers self')"
      then have x: "x = d \<or> x \<in> snd ` set (drivers self)"
        using sub unfolding self' by auto
      show "x < next_handle w'"
      proof (cases "x = d")
        case True
        then show ?thesis using d nh by simp
      next
        case False
        with x have "x \<in> snd ` set (drivers self)" by simp
        then have "x < next_handle w" by (rule I(2))
        then show ?thesis using nh by simp
      qed
      show "x \<notin> set (quit_calls (trace w'))"
      proof (cases "x = d")
        case True
        then show ?thesis using fresh2 q by simp
      next
        case False
        with x have "x \<in> snd ` set (drivers self)" by simp
        then have "x \<notin> set (quit_calls (trace w))" by (rule I(3))
        then show ?thesis using q by simp
      qed
    next
      fix x assume "x \<in> set (quit_calls (trace w'))"
      then show "x < next_handle w'" using I(4) [of x] q nh by auto
    qed
  qed
  with st res show ?thesis by simp
qed

lemma live_inv_close: "live_inv st \<Longrightarrow> live_inv (snd (close_driver sel s st))"
proof -
  assume inv: "live_inv st"
  obtain self w where st: "st = (self, w)" by (cases st)
  note I = live_invD [OF inv [unfolded st]]
  show ?thesis
  proof (cases "map_of (drivers self) s")
    case None
    with inv st show ?thesis by (simp add: close_driver_absent)
  next
    case (Some d)
    have gone: "d \<notin> snd ` set (AList.delete s (drivers self))"
      using I(1) Some by (rule delete_other_handles)
    have "(s, d) \<in> set (drivers self)" using Some by (rule map_of_SomeD)
    then have "d \<in> snd ` set (drivers self)" by force
    then have dlt: "d < next_handle w" by (rule I(2))
    have sub: "snd ` set (AList.delete s (drivers self)) \<subseteq> snd ` set (drivers self)"
      by (auto simp: AList.delete_eq)
    have "live_inv (self\<lparr>drivers := AList.delete s (drivers self)\<rparr>, w\<lparr>trace := trace w @ [EvQuit d]\<rparr>)"
    proof (rule live_invI)
      show "distinct (map snd (drivers (self\<lparr>drivers := AList.delete s (drivers self)\<rparr>)))"
        using I(1) by (simp add: distinct_snd_delete)
    next
      fix x assume "x \<in> snd ` set (drivers (self\<lparr>drivers := AList.delete s (drivers self)\<rparr>))"
      then have x: "x \<in> snd ` set (AList.delete s (drivers self))" by simp
      with sub have x': "x \<in> snd ` set (drivers self)" by blast
      show "x < next_handle (w\<lparr>trace := trace w @ [EvQuit d]\<rparr>)"
        using I(2) [OF x'] by simp
      show "x \<notin> set (quit_calls (trace (w\<lparr>trace := trace w @ [EvQuit d]\<rparr>)))"
        using I(3) [OF x'] x gone by (auto simp: quit_calls_append)
    next
      fix x assume "x \<in> set (quit_calls (trace (w\<lparr>trace := trace w @ [EvQuit d]\<rparr>)))"
      then have "x = d \<or> x \<in> set (quit_calls (trace w))" by (auto simp: quit_calls_append)
      then show "x < next_handle (w\<lparr>trace := trace w @ [EvQuit d]\<rparr>)"
        using dlt I(4) [of x] by auto
    qed
    then show ?thesis using st Some by (simp add: close_driver_present)
  qed
qed

lemma close_each_Inr: "fst (close_each sel ks st) = Inr ()"
proof (induction ks arbitrary: st)
  case Nil
  then show ?case by simp
next
  case (Cons k ks)
  obtain self w where st: "st = (self, w)" by (cases st)
  show ?case
    by (cases "map_of (drivers self) k")
       (simp_all add: st close_driver_absent close_driver_present Cons.IH)
qed

lemma live_inv_close_each: "live_inv st \<Longrightarrow> live_inv (snd (close_each sel ks st))"
proof (induction ks arbitrary: st)
  case Nil
  then show ?case by simp
next
  case (Cons k ks)
  obtain r st' where r: "close_driver sel k st = (r, st')" by (cases "close_driver sel k st")
  with Cons.prems have "live_inv st'" using live_inv_close [of st sel k] by simp
  with r Cons.IH show ?case by (auto split: sum.splits)
qed

lemma live_inv_run_op: "live_inv st \<Longrightarrow> live_inv (run_op sel ro st)"
  by (cases ro) (auto simp: live_inv_create live_inv_close live_inv_close_each close_all_def split: prod.splits)

lemma live_inv_run_ops: "live_inv st \<Longrightarrow> live_inv (run_ops sel ros st)"
  by (induction ros arbitrary: st) (simp_all add: live_inv_run_op)

lemma live_inv_init: "live_inv (BrowserlessManager_init url token, fresh_world)"
  by (simp add: live_inv_def BrowserlessManager_init_def fresh_world_def)

lemma get_driver_update:
  "get_driver s (self\<lparr>drivers := AList.update t d (drivers self)\<rparr>) =
     (if s = t then Some d else get_driver s self)"
  by (simp add: get_driver_def AList.update_conv')

lemma get_driver_delete:
  "get_driver s (self\<lparr>drivers := AList.delete t (drivers self)\<rparr>) =
     (if s = t then None else get_driver s self)"
  by (simp add: get_driver_def AList.delete_conv')

lemma get_driver_create:
  "get_driver s (fst (snd (create_driver sel t b (self, w)))) =
     (if s = t \<and> (\<exists>d. fst (create_driver sel t b (self, w)) = Inr d)
      then Some (next_handle w) else get_driver s self)"
proof -
  obtain r self' w' where res: "create_driver sel t b (self, w) = (r, (self', w'))"
    by (metis prod.exhaust)
  show ?thesis
  proof (cases r)
    case (Inl e)
    with res have "self' = self" by (auto dest: create_driver_Inl)
    with res Inl show ?thesis by simp
  next
    case (Inr d)
    with res have "d = next_handle w" "self' = self\<lparr>drivers := AList.update t d (drivers self)\<rparr>"
      by (auto dest: create_driver_Inr)
    with res Inr show ?thesis by (simp add: get_driver_update)
  qed
qed

lemma get_driver_close:
  "get_driver s (fst (snd (close_driver sel t (self, w)))) =
     (if s = t then None else get_driver s self)"
proof (cases "map_of (drivers self) t")
  case None
  then show ?thesis by (auto simp: close_driver_absent get_driver_def)
next
  case (Some d)
  then show ?thesis by (simp add: close_driver_present get_driver_delete)
qed

lemma run_op_untouched:
  "\<not> touches s ro \<Longrightarrow> get_driver s (fst (run_op sel ro st)) = get_driver s (fst st)"
  by (cases ro; cases st) (simp_all add: get_driver_create get_driver_close)

lemma run_ops_untouched:
  "\<forall>ro \<in> set ros. \<not> touches s ro \<Longrightarrow> get_driver s (fst (run_ops sel ros st)) = get_driver s (fst st)"
  by (induction ros arbitrary: st) (simp_all add: run_op_untouched)

lemma run_op_removes:
  assumes "get_driver s (fst st) \<noteq> None" and "get_driver s (fst (run_op sel ro st)) = None"
  shows "ro = Close s \<or> ro = CloseAll"
  using assms by (cases ro; cases st) (auto simp: get_driver_create get_driver_close split: if_splits)

lemma sel_quit_fails_quit: "quit_reply sel_quit_fails t d = Inl ''connection refused''"
  by (simp add: sel_quit_fails_def)

subsection \<open>Computations that only extend the trace\<close>

lemma remote_calls_append: "remote_calls (xs @ ys) = remote_calls xs @ remote_calls ys"
  by (induction xs rule: remote_calls.induct) simp_all

lemma quiet_Nil: "quiet []"
  by (simp add: quiet_def)

lemma quiet_append: "quiet xs \<Longrightarrow> quiet ys \<Longrightarrow> quiet (xs @ ys)"
  by (simp add: quiet_def remote_calls_append quit_calls_append)

lemma and_then_Inr:
  "and_then f g s = (Inr r, s') \<Longrightarrow> \<exists>v s1. f s = (Inr v, s1) \<and> g v s1 = (Inr r, s')"
  by (auto simp: and_then_def split: prod.splits sum.splits)

lemma and_then_step: "f s = (Inr v, s1) \<Longrightarrow> and_then f g s = g v s1"
  by (simp add: and_then_def)

lemma and_then_fail: "f s = (Inl e, s1) \<Longrightarrow> and_then f g s = (Inl e, s1)"
  by (simp add: and_then_def)

lemma try_except_raise_Inr:
  "try_except body (\<lambda>e. raise (h e)) s = (Inr r, s') \<Longrightarrow> body s = (Inr r, s')"
  by (auto simp: try_except_def raise_def split: prod.splits sum.splits)

lemma snd_try_except_raise: "snd (try_except body (\<lambda>e. raise (h e)) s) = snd (body s)"
  by (auto simp: try_except_def raise_def split: prod.splits sum.splits)

lemma gbm_present:
  "browserless_manager st = Some manager \<Longrightarrow> get_browserless_manager st = (Inr manager, st)"
  by (simp add: get_browserless_manager_def)

lemma world_only_returns: "world_only (returns v)"
  unfolding world_only_def returns_def
  by (intro allI exI [of _ "[]"]) (simp add: quiet_Nil)

lemma world_only_raise: "world_only (raise e)"
  unfolding world_only_def raise_def
  by (intro allI exI [of _ "[]"]) (simp add: quiet_Nil)

lemma world_only_and_then:
  assumes f: "world_only f" and g: "\<And>v. world_only (g v)"
  shows "world_only (and_then f g)"
  unfolding world_only_def
proof
  fix st
  from f obtain suf1 where q1: "quiet suf1"
    and s1: "snd (f st) = st\<lparr>world_of := (world_of st)\<lparr>trace := trace (world_of st) @ suf1\<rparr>\<rparr>"
    unfolding world_only_def by blast
  obtain r st1 where fst1: "f st = (r, st1)" by (cases "f st")
  show "\<exists>suf. quiet suf \<and>
      snd (and_then f g st) = st\<lparr>world_of := (world_of st)\<lparr>trace := trace (world_of st) @ suf\<rparr>\<rparr>"
  proof (cases r)
    case (Inl e)
    with fst1 s1 q1 show ?thesis by (auto simp: and_then_def)
  next
    case (Inr v)
    from g [of v] obtain suf2 where q2: "quiet suf2"
      and s2: "snd (g v st1) = st1\<lparr>world_of := (world_of st1)\<lparr>trace := trace (world_of st1) @ suf2\<rparr>\<rparr>"
      unfolding world_only_def by blast
    from fst1 s1 have st1: "st1 = st\<lparr>world_of := (world_of st)\<lparr>trace := trace (world_of st) @ suf1\<rparr>\<rparr>"
      by simp
    have "snd (and_then f g st) = st\<lparr>world_of := (world_of st)\<lparr>trace := trace (world_of st) @ (suf1 @ suf2)\<rparr>\<rparr>"
      using fst1 Inr s2 by (simp add: and_then_def st1)
    with quiet_append [OF q1 q2] show ?thesis by blast
  qed
qed

lemma world_only_try_except:
  assumes "world_only body"
  shows "world_only (try_except body (\<lambda>e. raise (h e)))"
  using assms unfolding world_only_def by (simp add: snd_try_except_raise)

lemma snd_on_world_call:
  "snd (on_world (call ev reply) st) = st\<lparr>world_of := (world_of st)\<lparr>trace := trace (world_of st) @ [ev]\<rparr>\<rparr>"
  by (simp add: on_world_def call_def split: sum.splits)

lemma world_only_call: "quiet [ev] \<Longrightarrow> world_only (on_world (call ev reply))"
  unfolding world_only_def by (intro allI exI [of _ "[ev]"]) (simp add: snd_on_world_call)

lemmas driver_defs = driver_get_def until_body_def title_def current_url_def page_source_def
  current_window_handle_def driver_find_element_def tag_name_def element_text_def
  get_attribute_def location_def element_size_def click_def execute_script_def
  get_screenshot_as_base64_def

lemma world_only_driver:
  "world_only (on_world (driver_get sel d url))"
  "world_only (on_world (until_body sel d n))"
  "world_only (on_world (title sel d))"
  "world_only (on_world (current_url sel d))"
  "world_only (on_world (page_source sel d))"
  "world_only (on_world (current_window_handle sel d))"
  "world_only (on_world (driver_find_element sel d b selector))"
  "world_only (on_world (tag_name sel el))"
  "world_only (on_world (element_text sel el))"
  "world_only (on_world (get_attribute sel el attr))"
  "world_only (on_world (location sel el))"
  "world_only (on_world (element_size sel el))"
  "world_only (on_world (click sel el))"
  "world_only (on_world (execute_script sel d script))"
  "world_only (on_world (get_screenshot_as_base64 sel d))"
  unfolding driver_defs by (rule world_only_call, simp add: quiet_def)+

lemma and_then_gbm:
  "browserless_manager st = Some manager \<Longrightarrow> and_then get_browserless_manager g st = g manager st"
  by (simp add: and_then_def gbm_present)

lemma and_then_gbm_result:
  "get_browserless_manager st = (Inr manager, st0) \<Longrightarrow>
     and_then get_browserless_manager g st = g manager st0"
  by (simp add: and_then_def)

lemma world_only_case_option:
  "world_only f \<Longrightarrow> (\<And>a. world_only (g a)) \<Longrightarrow> world_only (case x of None \<Rightarrow> f | Some a \<Rightarrow> g a)"
  by (cases x) simp_all

lemma collect_attributes_trace:
  "\<exists>suf. quiet suf \<and> snd (collect_attributes sel el attrs w) = w\<lparr>trace := trace w @ suf\<rparr>"
proof (induction attrs arbitrary: w)
  case Nil
  show ?case by (intro exI [of _ "[]"]) (simp add: quiet_Nil)
next
  case (Cons attr rest)
  let ?ev = "EvGetAttribute el attr"
  have q: "quiet [?ev]" by (simp add: quiet_def)
  obtain r1 w1 where c1: "get_attribute sel el attr w = (r1, w1)" by (cases "get_attribute sel el attr w")
  then have w1: "w1 = w\<lparr>trace := trace w @ [?ev]\<rparr>"
    unfolding get_attribute_def by (rule call_world)
  obtain r2 w2 where c2: "get_attribute sel el attr w1 = (r2, w2)" by (cases "get_attribute sel el attr w1")
  then have w2: "w2 = w\<lparr>trace := trace w @ [?ev, ?ev]\<rparr>"
    unfolding get_attribute_def using w1 by (auto dest: call_world)
  from Cons.IH [of w1] obtain sufa where qa: "quiet sufa"
    and sa: "snd (collect_attributes sel el rest w1) = w1\<lparr>trace := trace w1 @ sufa\<rparr>" by blast
  from Cons.IH [of w2] obtain sufb where qb: "quiet sufb"
    and sb: "snd (collect_attributes sel el rest w2) = w2\<lparr>trace := trace w2 @ sufb\<rparr>" by blast
  have qq: "quiet [?ev, ?ev]" by (simp add: quiet_def)
  show ?case
  proof (cases r1)
    case (Inl e)
    with c1 w1 q show ?thesis by (intro exI [of _ "[?ev]"]) simp
  next
    case r1: (Inr t)
    show ?thesis
    proof (cases "t \<noteq> None \<and> t \<noteq> Some []")
      case False
      with r1 c1 sa w1 quiet_append [OF q qa] show ?thesis
        by (intro exI [of _ "[?ev] @ sufa"]) auto
    next
      case True
      show ?thesis
      proof (cases r2)
        case (Inl e)
        with r1 True c1 c2 w1 w2 qq show ?thesis by (intro exI [of _ "[?ev, ?ev]"]) auto
      next
        case (Inr v)
        with r1 True c1 c2 sb w2 quiet_append [OF qq qb] show ?thesis
          by (intro exI [of _ "[?ev, ?ev] @ sufb"]) (auto split: prod.splits sum.splits)
      qed
    qed
  qed
qed

lemma world_only_collect_attributes: "world_only (on_world (collect_attributes sel el attrs))"
  unfolding world_only_def
proof
  fix st :: process
  from collect_attributes_trace [of sel el attrs "world_of st"] obtain suf where q: "quiet suf"
    and s: "snd (collect_attributes sel el attrs (world_of st)) = (world_of st)\<lparr>trace := trace (world_of st) @ suf\<rparr>"
    by blast
  have "snd (on_world (collect_attributes sel el attrs) st) =
      st\<lparr>world_of := (world_of st)\<lparr>trace := trace (world_of st) @ suf\<rparr>\<rparr>"
    using s by (cases "collect_attributes sel el attrs (world_of st)") (simp add: on_world_def)
  with q show "\<exists>suf. quiet suf \<and> snd (on_world (collect_attributes sel el attrs) st) =
      st\<lparr>world_of := (world_of st)\<lparr>trace := trace (world_of st) @ suf\<rparr>\<rparr>" by blast
qed

lemmas world_only_intros = world_only_and_then world_only_try_except world_only_driver
  world_only_collect_attributes world_only_returns world_only_raise world_only_case_option

lemma first_call_then:
  assumes "\<And>v. world_only (g v)"
  shows "\<exists>suf. quiet suf \<and> snd (and_then (on_world (call ev reply)) g st) =
           st\<lparr>world_of := (world_of st)\<lparr>trace := trace (world_of st) @ ev # suf\<rparr>\<rparr>"
proof -
  let ?st1 = "st\<lparr>world_of := (world_of st)\<lparr>trace := trace (world_of st) @ [ev]\<rparr>\<rparr>"
  obtain r where r: "on_world (call ev reply) st = (r, ?st1)"
    using snd_on_world_call [of ev reply st] by (cases "on_world (call ev reply) st") simp
  show ?thesis
  proof (cases r)
    case (Inl e)
    with r show ?thesis by (intro exI [of _ "[]"]) (simp add: and_then_def quiet_Nil)
  next
    case (Inr v)
    from assms [of v] obtain suf where q: "quiet suf"
      and s: "snd (g v ?st1) = ?st1\<lparr>world_of := (world_of ?st1)\<lparr>trace := trace (world_of ?st1) @ suf\<rparr>\<rparr>"
      unfolding world_only_def by blast
    from r Inr s q show ?thesis by (intro exI [of _ suf]) (simp add: and_then_def)
  qed
qed

lemma find_element_present:
  assumes "get_browserless_manager st = (Inr manager, st0)"
    and "get_driver session_id (objects st0 manager) = Some d"
  shows "\<exists>suf. quiet suf \<and> snd (find_element sel selector by_arg session_id st) =
           st0\<lparr>world_of := (world_of st0)\<lparr>trace := trace (world_of st0)
                @ EvFindElement d (by_method by_arg) selector # suf\<rparr>\<rparr>"
  using assms(2) unfolding find_element_def driver_find_element_def
  by (simp add: and_then_gbm_result [OF assms(1)] snd_try_except_raise)
     (rule first_call_then, intro world_only_intros)

lemma click_element_present:
  assumes "get_browserless_manager st = (Inr manager, st0)"
    and "get_driver session_id (objects st0 manager) = Some d"
  shows "\<exists>suf. quiet suf \<and> snd (click_element sel selector by_arg session_id st) =
           st0\<lparr>world_of := (world_of st0)\<lparr>trace := trace (world_of st0)
                @ EvFindElement d (by_method by_arg) selector # suf\<rparr>\<rparr>"
  using assms(2) unfolding click_element_def driver_find_element_def
  by (simp add: and_then_gbm_result [OF assms(1)] snd_try_except_raise)
     (rule first_call_then, intro world_only_intros)

lemma session_tool_absent:
  assumes "get_browserless_manager st = (Inr manager, st0)"
    and "get_driver session_id (objects st0 manager) = None"
  shows "find_element sel selector by_arg session_id st = (Inl no_active_session, st0)"
    and "click_element sel selector by_arg session_id st = (Inl no_active_session, st0)"
    and "execute_javascript sel script session_id st = (Inl no_active_session, st0)"
    and "take_screenshot sel session_id st = (Inl no_active_session, st0)"
    and "get_page_info sel session_id st = (Inl no_active_session, st0)"
  using assms(2)
  by (simp_all add: find_element_def click_element_def execute_javascript_def take_screenshot_def
      get_page_info_def and_then_gbm_result [OF assms(1)] raise_def)

subsection \<open>Strategy names and concrete replies\<close>

lemma sel_ok_replies:
  "remote_reply sel_ok t ce opts = Inr ()"
  "quit_reply sel_ok t d = Inr ()"
  "get_reply sel_ok t d url = Inr ()"
  "until_body_reply sel_ok t d n = Inr ()"
  "title_reply sel_ok t d = Inr ''Example Domain''"
  "current_url_reply sel_ok t d = Inr ''https://example.com/''"
  "page_source_reply sel_ok t d = Inr ''<html><body></body></html>''"
  "window_handle_reply sel_ok t d = Inr ''window-1''"
  "execute_script_reply sel_ok t d script = Inr (VInt 42)"
  "screenshot_reply sel_ok t d = Inr ''iVBORw0KGgo=''"
  by (simp_all add: sel_ok_def)

lemma lower_char_idem: "lower_char (lower_char c) = lower_char c"
proof -
  have "of_char (char_of (of_char c + 32 :: nat)) = (of_char c + 32 :: nat)" if "(of_char c :: nat) \<le> 222"
    using that by (simp add: of_char_of)
  then show ?thesis
    by (auto simp add: lower_char_def Let_def)
qed

lemma lower_idem: "lower (lower s) = lower s"
  by (simp add: lower_def lower_char_idem)

lemma lower_names:
  "lower ''css'' = ''css''" "lower ''xpath'' = ''xpath''" "lower ''id'' = ''id''"
  "lower ''name'' = ''name''" "lower ''class_name'' = ''class_name''"
  "lower ''tag_name'' = ''tag_name''" "lower ''link_text'' = ''link_text''"
  "lower ''partial_link_text'' = ''partial_link_text''"
  by code_simp+

lemma lower_XPATH: "lower ''XPATH'' = ''xpath''"
  by code_simp

lemma st_ready_simps:
  "browserless_manager st_ready = Some 0"
  "objects st_ready m = BrowserlessManager_init ''http://localhost:3000/'' None"
  "world_of st_ready = fresh_world"
  by (simp_all add: st_ready_def st_boot_def)

lemma st_session_simps:
  "browserless_manager st_session = Some 0"
  "objects st_session m = \<lparr>browserless_url = ''http://localhost:3000'', auth_token = None,
                        drivers = [(''s1'', 0)]\<rparr>"
  "world_of st_session = \<lparr>trace = [], next_handle = 1\<rparr>"
  by (simp_all add: st_session_def st_ready_def st_boot_def)

lemma gbm_session: "get_browserless_manager st_session = (Inr 0, st_session)"
  by (rule gbm_present) (simp add: st_session_simps)

lemma gbm_ready: "get_browserless_manager st_ready = (Inr 0, st_ready)"
  by (rule gbm_present) (simp add: st_ready_simps)

lemma gbm_boot:
  "get_browserless_manager st_boot =
     (Inr 0, st_boot\<lparr>browserless_manager := Some 0,
        objects := (objects st_boot)(0 := BrowserlessManager_init ''http://localhost:3000/'' None),
        next_object := Suc 0\<rparr>)"
  by (simp add: get_browserless_manager_def st_boot_def)

lemma lower_unknown: "lower ''unknown_strategy'' = ''unknown_strategy''"
  by code_simp

lemma create_driver_eval:
  "create_driver sel_ok ''s1'' ''chrome''
     (\<lparr>browserless_url = ''http://localhost:3000'', auth_token = None, drivers = [(''s1'', 0)]\<rparr>,
      \<lparr>trace = [], next_handle = 1\<rparr>) =
   (Inr 1,
    (\<lparr>browserless_url = ''http://localhost:3000'', auth_token = None, drivers = [(''s1'', 1)]\<rparr>,
     \<lparr>trace = [EvRemote (ExecutorUrl ''http://localhost:3000/webdriver'')
                 (ChromeOptions [''--no-sandbox'', ''--disable-dev-shm-usage'', ''--disable-gpu''])],
       next_handle = 2\<rparr>))"
  by (simp add: create_driver_def and_then_def in_world_def Remote_def call_def sel_ok_replies)

lemma run_ops_eval:
  "run_ops sel_ok [Create ''s1'' ''chrome'', Create ''s1'' ''chrome'', Close ''s1'', Create ''s2'' ''chrome'']
     (BrowserlessManager_init ''http://localhost:3000/'' None, fresh_world) =
   (\<lparr>browserless_url = ''http://localhost:3000'', auth_token = None, drivers = [(''s2'', 2)]\<rparr>,
    \<lparr>trace = [EvRemote (ExecutorUrl ''http://localhost:3000/webdriver'')
                 (ChromeOptions [''--no-sandbox'', ''--disable-dev-shm-usage'', ''--disable-gpu'']),
              EvRemote (ExecutorUrl ''http://localhost:3000/webdriver'')
                 (ChromeOptions [''--no-sandbox'', ''--disable-dev-shm-usage'', ''--disable-gpu'']),
              EvQuit 1,
              EvRemote (ExecutorUrl ''http://localhost:3000/webdriver'')
                 (ChromeOptions [''--no-sandbox'', ''--disable-dev-shm-usage'', ''--disable-gpu''])],
      next_handle = 3\<rparr>)"
  by (simp add: create_driver_def close_driver_def and_then_def in_world_def Remote_def call_def
      sel_ok_replies BrowserlessManager_init_def fresh_world_def rstrip_def try_except_def quit_def
      returns_def AList.delete_eq)

subsection \<open>Globals are kept\<close>

lemma same_globals_refl: "same_globals st st"
  by (simp add: same_globals_def)

lemma same_globals_trans: "same_globals a b \<Longrightarrow> same_globals b c \<Longrightarrow> same_globals a c"
  by (simp add: same_globals_def)

lemma same_globals_world: "same_globals st (st\<lparr>world_of := w\<rparr>)"
  by (simp add: same_globals_def)

lemma world_only_globals: "world_only f \<Longrightarrow> same_globals st (snd (f st))"
proof -
  assume "world_only f"
  then obtain suf where
    "snd (f st) = st\<lparr>world_of := (world_of st)\<lparr>trace := trace (world_of st) @ suf\<rparr>\<rparr>"
    unfolding world_only_def by blast
  then show ?thesis by (simp add: same_globals_world)
qed

lemma on_manager_globals: "same_globals st (snd (on_manager manager f st))"
  by (cases "f (objects st manager, world_of st)") (auto simp: on_manager_def same_globals_def)

lemma get_or_create_globals: "same_globals st (snd (get_or_create sel manager session_id st))"
  by (cases "get_driver session_id (objects st manager)")
     (simp_all add: get_or_create_def on_manager_globals same_globals_refl)

lemma and_then_globals:
  assumes "\<And>s. same_globals s (snd (f s))" and "\<And>v s. same_globals s (snd (g v s))"
  shows "same_globals st (snd (and_then f g st))"
proof (cases "f st")
  case (Pair r st1)
  from assms(1) [of st] Pair have a: "same_globals st st1" by simp
  show ?thesis
  proof (cases r)
    case (Inl e)
    with Pair a show ?thesis by (simp add: and_then_def)
  next
    case (Inr v)
    with Pair have "and_then f g st = g v st1" by (simp add: and_then_def)
    with assms(2) [of st1 v] a show ?thesis by (auto intro: same_globals_trans)
  qed
qed

lemma session_tool_world_only:
  assumes "browserless_manager st = Some manager"
  shows "same_globals st (snd (find_element sel selector by_arg session_id st))"
    and "same_globals st (snd (click_element sel selector by_arg session_id st))"
    and "same_globals st (snd (execute_javascript sel script session_id st))"
    and "same_globals st (snd (take_screenshot sel session_id st))"
    and "same_globals st (snd (get_page_info sel session_id st))"
proof -
  show "same_globals st (snd (find_element sel selector by_arg session_id st))"
    using assms unfolding find_element_def
    by (cases "get_driver session_id (objects st manager)")
       (simp_all add: and_then_gbm raise_def same_globals_refl world_only_globals world_only_intros)
  show "same_globals st (snd (click_element sel selector by_arg session_id st))"
    using assms unfolding click_element_def
    by (cases "get_driver session_id (objects st manager)")
       (simp_all add: and_then_gbm raise_def same_globals_refl world_only_globals world_only_intros)
  show "same_globals st (snd (execute_javascript sel script session_id st))"
    using assms unfolding execute_javascript_def
    by (cases "get_driver session_id (objects st manager)")
       (simp_all add: and_then_gbm raise_def same_globals_refl world_only_globals world_only_intros)
  show "same_globals st (snd (take_screenshot sel session_id st))"
    using assms unfolding take_screenshot_def
    by (cases "get_driver session_id (objects st manager)")
       (simp_all add: and_then_gbm raise_def same_globals_refl world_only_globals world_only_intros)
  show "same_globals st (snd (get_page_info sel session_id st))"
    using assms unfolding get_page_info_def
    by (cases "get_driver session_id (objects st manager)")
       (simp_all add: and_then_gbm raise_def same_globals_refl world_only_globals world_only_intros)
qed

lemma navigate_globals:
  assumes "browserless_manager st = Some manager"
  shows "same_globals st (snd (navigate_to_url sel url session_id st))"
  using assms unfolding navigate_to_url_def
  by (simp add: and_then_gbm snd_try_except_raise)
     (intro and_then_globals get_or_create_globals world_only_globals world_only_intros)

lemma close_browser_globals:
  assumes "browserless_manager st = Some manager"
  shows "same_globals st (snd (close_browser sel session_id st))"
  using assms unfolding close_browser_def
  by (simp add: and_then_gbm)
     (intro and_then_globals on_manager_globals world_only_globals world_only_intros)

lemma invoke_globals:
  assumes "browserless_manager st = Some manager"
  shows "same_globals st (snd (invoke sel c session_id st))"
  by (cases c)
     (simp_all add: navigate_globals [OF assms] close_browser_globals [OF assms]
        session_tool_world_only [OF assms])

lemma run_calls_globals:
  "browserless_manager st = Some manager \<Longrightarrow> same_globals st (run_calls sel cs st)"
proof (induction cs arbitrary: st)
  case Nil
  show ?case by (simp add: same_globals_refl)
next
  case (Cons p cs)
  obtain c session_id where p: "p = (c, session_id)" by (cases p)
  let ?st1 = "snd (invoke sel c session_id st)"
  from invoke_globals [OF Cons.prems] have a: "same_globals st ?st1" .
  with Cons.prems have "browserless_manager ?st1 = Some manager" by (simp add: same_globals_def)
  from Cons.IH [OF this] a show ?case by (auto simp: p intro: same_globals_trans)
qed

lemma gbm_result:
  "get_browserless_manager st = (Inr manager, st1) \<Longrightarrow> browserless_manager st1 = Some manager"
  by (auto simp: get_browserless_manager_def Let_def split: option.splits if_splits)

subsection \<open>Results of the tools\<close>

lemma navigate_result:
  "navigate_to_url sel url session_id st = (Inr r, st') \<Longrightarrow> \<exists>t u. r = NavigateResponse t u True"
  by (auto simp: navigate_to_url_def returns_def dest!: and_then_Inr try_except_raise_Inr)

lemma find_element_result:
  "find_element sel selector by_arg session_id st = (Inr r, st') \<Longrightarrow>
     \<exists>tag txt attrs loc sz. r = ElementInfo tag txt attrs loc sz"
  by (auto simp: find_element_def returns_def raise_def split: option.splits
      dest!: and_then_Inr try_except_raise_Inr)

lemma click_element_result:
  "click_element sel selector by_arg session_id st = (Inr r, st') \<Longrightarrow> \<exists>t u. r = ClickResponse True t u"
  by (auto simp: click_element_def returns_def raise_def split: option.splits
      dest!: and_then_Inr try_except_raise_Inr)

lemma execute_javascript_result:
  "execute_javascript sel script session_id st = (Inr r, st') \<Longrightarrow> \<exists>v. r = ScriptResponse True v"
  by (auto simp: execute_javascript_def returns_def raise_def split: option.splits
      dest!: and_then_Inr try_except_raise_Inr)

lemma take_screenshot_result:
  "take_screenshot sel session_id st = (Inr r, st') \<Longrightarrow> \<exists>shot. r = ScreenshotResponse shot True"
  by (auto simp: take_screenshot_def returns_def raise_def split: option.splits
      dest!: and_then_Inr try_except_raise_Inr)

lemma close_browser_result:
  "close_browser sel session_id st = (Inr r, st') \<Longrightarrow> r = CloseResponse True ''Browser session closed''"
  by (auto simp: close_browser_def returns_def dest!: and_then_Inr)

lemma get_page_info_result:
  "get_page_info sel session_id st = (Inr r, st') \<Longrightarrow> \<exists>t u n h. r = PageInfo t u n h"
  by (auto simp: get_page_info_def returns_def raise_def split: option.splits
      dest!: and_then_Inr try_except_raise_Inr)





subsection \<open>Evaluation on the concrete processes\<close>


lemma get_page_info_eval:
  "fst (get_page_info sel_ok ''s1'' st_session) =
     Inr (PageInfo ''Example Domain'' ''https://example.com/'' 26 ''window-1'')"
  by (simp add: get_page_info_def gbm_session st_session_simps get_driver_def try_except_def
      and_then_def on_world_def call_def title_def current_url_def page_source_def
      current_window_handle_def sel_ok_replies returns_def)

lemma navigate_eval:
  "navigate_to_url sel_ok ''https://example.com'' ''s1'' st_session =
     (Inr (NavigateResponse ''Example Domain'' ''https://example.com/'' True),
      st_session\<lparr>world_of := \<lparr>trace = [EvGet 0 ''https://example.com'', EvUntilBody 0 10,
                                  EvTitle 0, EvCurrentUrl 0], next_handle = 1\<rparr>\<rparr>)"
  by (simp add: navigate_to_url_def gbm_session st_session_simps get_or_create_def get_driver_def
      try_except_def and_then_def on_world_def call_def driver_get_def until_body_def title_def
      current_url_def sel_ok_replies returns_def)

lemma rstrip_eval: "rstrip CHR ''/'' ''http://localhost:3000/'' = ''http://localhost:3000''"
  by (simp add: rstrip_def)

section \<open>The claims\<close>

subsection \<open>C1\<close>




subsection \<open>C2\<close>

text \<open>
  C2. When the session identifier is not in the dictionary of the registry that
  \<^verbatim>\<open>get_browserless_manager\<close> returns, each of \<^verbatim>\<open>find_element\<close>, \<^verbatim>\<open>click_element\<close>,
  \<^verbatim>\<open>execute_javascript\<close>, \<^verbatim>\<open>take_screenshot\<close> and \<^verbatim>\<open>get_page_info\<close> raises the no-active-session error and leaves the process as the
  accessor returned it, which is the process as it was when the registry existed already:
  no call reaches the client, so no connection is created, and the dictionary is unchanged.
\<close>

theorem session_tools_require_session:
  assumes "get_browserless_manager st = (Inr manager, st0)"
    and "get_driver session_id (objects st0 manager) = None"
  shows "find_element sel selector by_arg session_id st = (Inl no_active_session, st0) \<and>
         click_element sel selector by_arg session_id st = (Inl no_active_session, st0) \<and>
         execute_javascript sel script session_id st = (Inl no_active_session, st0) \<and>
         take_screenshot sel session_id st = (Inl no_active_session, st0) \<and>
         get_page_info sel session_id st = (Inl no_active_session, st0) \<and>
         (browserless_manager st = Some manager \<longrightarrow> st0 = st)"
  using session_tool_absent [OF assms] assms(1) by (auto simp: gbm_present)

text \<open>
  C2 at the process whose registry has no session, and at the process that has read nothing
  yet, where the registry is constructed by the call.
\<close>

theorem session_tools_require_session_witness:
  "get_browserless_manager st_ready = (Inr 0, st_ready) \<and>
   get_driver ''s1'' (objects st_ready 0) = None \<and>
   find_element sel_ok ''h1'' ''css'' ''s1'' st_ready = (Inl no_active_session, st_ready) \<and>
   click_element sel_ok ''h1'' ''css'' ''s1'' st_ready = (Inl no_active_session, st_ready) \<and>
   execute_javascript sel_ok ''return 1'' ''s1'' st_ready = (Inl no_active_session, st_ready) \<and>
   take_screenshot sel_ok ''s1'' st_ready = (Inl no_active_session, st_ready) \<and>
   get_page_info sel_ok ''s1'' st_ready = (Inl no_active_session, st_ready) \<and>
   fst (get_browserless_manager st_boot) = Inr 0 \<and>
   get_driver ''s1'' (objects (snd (get_browserless_manager st_boot)) 0) = None \<and>
   take_screenshot sel_ok ''s1'' st_boot =
     (Inl no_active_session, snd (get_browserless_manager st_boot))"
proof -
  have b: "get_driver ''s1'' (objects st_ready 0) = None"
    by (simp add: st_ready_simps get_driver_def BrowserlessManager_init_def)
  note T = session_tools_require_session [OF gbm_ready b, of sel_ok "''h1''" "''css''" "''return 1''"]
  let ?st0 = "snd (get_browserless_manager st_boot)"
  have g: "get_browserless_manager st_boot = (Inr 0, ?st0)" by (simp add: gbm_boot)
  have b': "get_driver ''s1'' (objects ?st0 0) = None"
    by (simp add: gbm_boot get_driver_def BrowserlessManager_init_def)
  note T' = session_tools_require_session [OF g b', of sel_ok "''h1''" "''css''" "''return 1''"]
  from T' have c: "take_screenshot sel_ok ''s1'' st_boot = (Inl no_active_session, ?st0)" by blast
  have d: "fst (get_browserless_manager st_boot) = Inr 0" by (simp add: gbm_boot)
  from T gbm_ready b b' c d show ?thesis by blast
qed

subsection \<open>C3\<close>

text \<open>
  C3, as the code has it. When a tool returns a result, the result of \<^verbatim>\<open>navigate_to_url\<close>,
  \<^verbatim>\<open>click_element\<close>, \<^verbatim>\<open>execute_javascript\<close>, \<^verbatim>\<open>take_screenshot\<close> and \<^verbatim>\<open>close_browser\<close> has the
  field \<^verbatim>\<open>success\<close> with the value true; the result of \<^verbatim>\<open>find_element\<close> (an
  \<^verbatim>\<open>ElementInfo\<close>) and of \<^verbatim>\<open>get_page_info\<close> (a \<^verbatim>\<open>PageInfo\<close>) has no field of that name.
\<close>

theorem success_field_of_results:
  assumes "invoke sel c session_id st = (Inr r, st')"
  shows "map_of (fields r) ''success'' =
           (case c of FindElement selector by_arg \<Rightarrow> None | GetPageInfo \<Rightarrow> None
            | _ \<Rightarrow> Some (VBool True))"
  using assms
  by (cases c)
     (auto dest: navigate_result find_element_result click_element_result
        execute_javascript_result take_screenshot_result close_browser_result get_page_info_result)

text \<open>
  C3 as stated fails for \<^verbatim>\<open>get_page_info\<close>: the call completes without error and its
  result has no \<^verbatim>\<open>success\<close> field.
\<close>

theorem page_info_has_no_success_field:
  "fst (invoke sel_ok GetPageInfo ''s1'' st_session) =
     Inr (PageInfo ''Example Domain'' ''https://example.com/'' 26 ''window-1'') \<and>
   map_of (fields (PageInfo ''Example Domain'' ''https://example.com/'' 26 ''window-1'')) ''success'' = None"
  by (simp add: get_page_info_eval)

text \<open>
  C3 at a successful \<^verbatim>\<open>navigate_to_url\<close>.
\<close>

theorem success_field_of_results_witness:
  "invoke sel_ok (NavigateToUrl ''https://example.com'') ''s1'' st_session =
     (Inr (NavigateResponse ''Example Domain'' ''https://example.com/'' True),
      st_session\<lparr>world_of := \<lparr>trace = [EvGet 0 ''https://example.com'', EvUntilBody 0 10,
                                  EvTitle 0, EvCurrentUrl 0], next_handle = 1\<rparr>\<rparr>) \<and>
   map_of (fields (NavigateResponse ''Example Domain'' ''https://example.com/'' True)) ''success'' =
     Some (VBool True)"
proof -
  have a: "invoke sel_ok (NavigateToUrl ''https://example.com'') ''s1'' st_session =
     (Inr (NavigateResponse ''Example Domain'' ''https://example.com/'' True),
      st_session\<lparr>world_of := \<lparr>trace = [EvGet 0 ''https://example.com'', EvUntilBody 0 10,
                                  EvTitle 0, EvCurrentUrl 0], next_handle = 1\<rparr>\<rparr>)"
    by (simp add: navigate_eval)
  from success_field_of_results [OF a] a show ?thesis by simp
qed

subsection \<open>C4\<close>

text \<open>
  C4, as the code has it. When \<^verbatim>\<open>create_driver\<close> returns a handle for the session identifier \<open>s\<close>, the
  dictionary is the old one with \<open>s\<close> set to that handle (an entry that was there is
  overwritten), the handle is a new object, \<^verbatim>\<open>quit\<close> was called on nothing, and
  \<^verbatim>\<open>get_driver\<close> returns that same handle after any sequence of registry operations that
  neither closes \<open>s\<close> (by \<^verbatim>\<open>close_driver\<close> of \<open>s\<close> or \<^verbatim>\<open>close_all\<close>) nor creates \<open>s\<close> again.
\<close>

theorem create_driver_stores_handle:
  assumes "create_driver sel s b (self, w) = (Inr d, (self', w'))"
  shows "drivers self' = AList.update s d (drivers self) \<and>
         get_driver s self' = Some d \<and>
         d = next_handle w \<and>
         quit_calls (trace w') = quit_calls (trace w) \<and>
         (\<forall>ros. (\<forall>ro \<in> set ros. \<not> touches s ro) \<longrightarrow>
            get_driver s (fst (run_ops sel ros (self', w'))) = Some d)"
proof -
  from assms have d: "d = next_handle w"
    and self': "self' = self\<lparr>drivers := AList.update s d (drivers self)\<rparr>"
    and tr: "\<exists>ce opts. trace w' = trace w @ [EvRemote ce opts]"
    by (auto dest: create_driver_Inr)
  from self' have got: "get_driver s self' = Some d" by (simp add: get_driver_update)
  from tr have q: "quit_calls (trace w') = quit_calls (trace w)"
    by (auto simp: quit_calls_append)
  have "get_driver s (fst (run_ops sel ros (self', w'))) = Some d"
    if "\<forall>ro \<in> set ros. \<not> touches s ro" for ros
    using run_ops_untouched [OF that, of sel "(self', w')"] got by simp
  with d self' got q show ?thesis by simp
qed

text \<open>
  C4 as stated fails when the same identifier is created twice: after \<^verbatim>\<open>create_driver\<close> of
  \<^verbatim>\<open>s1\<close> has stored the handle 0, a \<^verbatim>\<open>get_driver\<close> and a second \<^verbatim>\<open>create_driver\<close> of \<^verbatim>\<open>s1\<close>
  follow, with no close of any kind; \<^verbatim>\<open>get_driver\<close> then returns the handle 1, not the
  handle 0, and \<^verbatim>\<open>quit\<close> was never called.
\<close>

theorem second_create_replaces_handle:
  "create_driver sel_ok ''s1'' ''chrome''
     (\<lparr>browserless_url = ''http://localhost:3000'', auth_token = None, drivers = []\<rparr>,
      \<lparr>trace = [], next_handle = 0\<rparr>) =
   (Inr 0,
    (\<lparr>browserless_url = ''http://localhost:3000'', auth_token = None, drivers = [(''s1'', 0)]\<rparr>,
     \<lparr>trace = [EvRemote (ExecutorUrl ''http://localhost:3000/webdriver'')
                 (ChromeOptions [''--no-sandbox'', ''--disable-dev-shm-usage'', ''--disable-gpu''])],
       next_handle = 1\<rparr>)) \<and>
   get_driver ''s1''
     (fst (run_ops sel_ok [Get ''s1'', Create ''s1'' ''chrome'']
       (\<lparr>browserless_url = ''http://localhost:3000'', auth_token = None, drivers = [(''s1'', 0)]\<rparr>,
        \<lparr>trace = [EvRemote (ExecutorUrl ''http://localhost:3000/webdriver'')
                 (ChromeOptions [''--no-sandbox'', ''--disable-dev-shm-usage'', ''--disable-gpu''])],
          next_handle = 1\<rparr>))) = Some 1 \<and>
   quit_calls (trace (snd (run_ops sel_ok [Get ''s1'', Create ''s1'' ''chrome'']
       (\<lparr>browserless_url = ''http://localhost:3000'', auth_token = None, drivers = [(''s1'', 0)]\<rparr>,
        \<lparr>trace = [EvRemote (ExecutorUrl ''http://localhost:3000/webdriver'')
                 (ChromeOptions [''--no-sandbox'', ''--disable-dev-shm-usage'', ''--disable-gpu''])],
          next_handle = 1\<rparr>)))) = []"
  by (simp add: create_driver_def and_then_def in_world_def Remote_def call_def sel_ok_replies
      get_driver_def)

text \<open>
  C4 at a registry where \<^verbatim>\<open>s1\<close> already owns the handle 0: the new handle 1 replaces it.
\<close>

theorem create_driver_stores_handle_witness:
  "create_driver sel_ok ''s1'' ''chrome''
     (\<lparr>browserless_url = ''http://localhost:3000'', auth_token = None, drivers = [(''s1'', 0)]\<rparr>,
      \<lparr>trace = [], next_handle = 1\<rparr>) =
   (Inr 1,
    (\<lparr>browserless_url = ''http://localhost:3000'', auth_token = None, drivers = [(''s1'', 1)]\<rparr>,
     \<lparr>trace = [EvRemote (ExecutorUrl ''http://localhost:3000/webdriver'')
                 (ChromeOptions [''--no-sandbox'', ''--disable-dev-shm-usage'', ''--disable-gpu''])],
       next_handle = 2\<rparr>)) \<and>
   get_driver ''s1'' \<lparr>browserless_url = ''http://localhost:3000'', auth_token = None, drivers = [(''s1'', 1)]\<rparr> = Some 1 \<and>
   get_driver ''s1'' (fst (run_ops sel_ok [Get ''s1'', Create ''s2'' ''chrome'', Close ''s2'', Close ''s3'']
     (\<lparr>browserless_url = ''http://localhost:3000'', auth_token = None, drivers = [(''s1'', 1)]\<rparr>,
      \<lparr>trace = [EvRemote (ExecutorUrl ''http://localhost:3000/webdriver'')
                 (ChromeOptions [''--no-sandbox'', ''--disable-dev-shm-usage'', ''--disable-gpu''])],
       next_handle = 2\<rparr>))) = Some 1"
proof -
  note T = create_driver_stores_handle [OF create_driver_eval]
  have ops: "\<forall>ro \<in> set [Get ''s1'', Create ''s2'' ''chrome'', Close ''s2'', Close ''s3'']. \<not> touches ''s1'' ro"
    by simp
  from T ops have "get_driver ''s1'' (fst (run_ops sel_ok [Get ''s1'', Create ''s2'' ''chrome'', Close ''s2'', Close ''s3'']
     (\<lparr>browserless_url = ''http://localhost:3000'', auth_token = None, drivers = [(''s1'', 1)]\<rparr>,
      \<lparr>trace = [EvRemote (ExecutorUrl ''http://localhost:3000/webdriver'')
                 (ChromeOptions [''--no-sandbox'', ''--disable-dev-shm-usage'', ''--disable-gpu''])],
       next_handle = 2\<rparr>))) = Some 1"
    by blast
  moreover from T have "get_driver ''s1'' \<lparr>browserless_url = ''http://localhost:3000'', auth_token = None, drivers = [(''s1'', 1)]\<rparr> = Some 1"
    by blast
  ultimately show ?thesis using create_driver_eval by blast
qed

subsection \<open>C5\<close>

text \<open>
  C5. For every client, also one whose \<^verbatim>\<open>quit\<close> raises: when the session identifier is in
  the dictionary, \<^verbatim>\<open>close_driver\<close> calls \<^verbatim>\<open>quit\<close> on its handle, returns without error and
  removes the identifier; when it is not, \<^verbatim>\<open>close_driver\<close> returns without error and
  changes nothing; and a second \<^verbatim>\<open>close_driver\<close> of the same identifier returns without
  error and changes nothing.
\<close>

theorem close_driver_best_effort:
  "(\<forall>d. get_driver s self = Some d \<longrightarrow>
      close_driver sel s (self, w) =
        (Inr (), (self\<lparr>drivers := AList.delete s (drivers self)\<rparr>, w\<lparr>trace := trace w @ [EvQuit d]\<rparr>)) \<and>
      get_driver s (self\<lparr>drivers := AList.delete s (drivers self)\<rparr>) = None) \<and>
   (get_driver s self = None \<longrightarrow> close_driver sel s (self, w) = (Inr (), (self, w))) \<and>
   close_driver sel s (snd (close_driver sel s (self, w))) = (Inr (), snd (close_driver sel s (self, w)))"
proof (cases "map_of (drivers self) s")
  case None
  then show ?thesis by (simp add: get_driver_def close_driver_absent)
next
  case (Some d)
  have gone: "map_of (AList.delete s (drivers self)) s = None"
    by (simp add: AList.delete_conv')
  from Some gone show ?thesis
    by (simp add: get_driver_def close_driver_present close_driver_absent)
qed

text \<open>
  C5 at a client whose \<^verbatim>\<open>quit\<close> raises: the failure does not propagate, the entry is gone.
\<close>

theorem close_driver_best_effort_witness:
  "get_driver ''s1'' \<lparr>browserless_url = ''http://localhost:3000'', auth_token = None, drivers = [(''s1'', 0)]\<rparr> = Some 0 \<and>
   fst (quit sel_quit_fails 0 \<lparr>trace = [], next_handle = 1\<rparr>) = Inl (Exception ''connection refused'') \<and>
   close_driver sel_quit_fails ''s1''
     (\<lparr>browserless_url = ''http://localhost:3000'', auth_token = None, drivers = [(''s1'', 0)]\<rparr>,
      \<lparr>trace = [], next_handle = 1\<rparr>) =
     (Inr (), (\<lparr>browserless_url = ''http://localhost:3000'', auth_token = None, drivers = []\<rparr>,
               \<lparr>trace = [EvQuit 0], next_handle = 1\<rparr>)) \<and>
   close_driver sel_quit_fails ''s1''
     (\<lparr>browserless_url = ''http://localhost:3000'', auth_token = None, drivers = []\<rparr>,
      \<lparr>trace = [EvQuit 0], next_handle = 1\<rparr>) =
     (Inr (), (\<lparr>browserless_url = ''http://localhost:3000'', auth_token = None, drivers = []\<rparr>,
               \<lparr>trace = [EvQuit 0], next_handle = 1\<rparr>))"
proof -
  let ?self = "\<lparr>browserless_url = ''http://localhost:3000'', auth_token = None, drivers = [(''s1'', 0)]\<rparr>"
  let ?w = "\<lparr>trace = [], next_handle = 1\<rparr>"
  note T = close_driver_best_effort [of "''s1''" ?self sel_quit_fails ?w]
  have g: "get_driver ''s1'' ?self = Some 0" by (simp add: get_driver_def)
  have q: "fst (quit sel_quit_fails 0 ?w) = Inl (Exception ''connection refused'')"
    by (simp add: quit_def call_def sel_quit_fails_quit)
  from T g have c1: "close_driver sel_quit_fails ''s1'' (?self, ?w) =
      (Inr (), (\<lparr>browserless_url = ''http://localhost:3000'', auth_token = None, drivers = []\<rparr>,
                \<lparr>trace = [EvQuit 0], next_handle = 1\<rparr>))"
    by (simp add: AList.delete_eq)
  from T have "close_driver sel_quit_fails ''s1'' (snd (close_driver sel_quit_fails ''s1'' (?self, ?w))) =
      (Inr (), snd (close_driver sel_quit_fails ''s1'' (?self, ?w)))"
    by blast
  then have c2: "close_driver sel_quit_fails ''s1''
      (\<lparr>browserless_url = ''http://localhost:3000'', auth_token = None, drivers = []\<rparr>,
       \<lparr>trace = [EvQuit 0], next_handle = 1\<rparr>) =
      (Inr (), (\<lparr>browserless_url = ''http://localhost:3000'', auth_token = None, drivers = []\<rparr>,
                \<lparr>trace = [EvQuit 0], next_handle = 1\<rparr>))"
    unfolding c1 by simp
  from g q c1 c2 show ?thesis by blast
qed

subsection \<open>C6\<close>

text \<open>
  C6. In every registry state reached from a new registry by \<^verbatim>\<open>create_driver\<close>,
  \<^verbatim>\<open>get_driver\<close>, \<^verbatim>\<open>close_driver\<close> and \<^verbatim>\<open>close_all\<close>, a handle in the dictionary was never
  passed to \<^verbatim>\<open>quit\<close>; and when one more operation takes a session identifier out of the
  dictionary, that operation is \<^verbatim>\<open>close_driver\<close> of that identifier or \<^verbatim>\<open>close_all\<close>.
\<close>

theorem registry_entries_live:
  assumes "run_ops sel ros (BrowserlessManager_init url token, fresh_world) = (self, w)"
  shows "(\<forall>s d. get_driver s self = Some d \<longrightarrow> d \<notin> set (quit_calls (trace w))) \<and>
         (\<forall>ro s. get_driver s self \<noteq> None \<and> get_driver s (fst (run_op sel ro (self, w))) = None
            \<longrightarrow> ro = Close s \<or> ro = CloseAll)"
proof -
  have "live_inv (self, w)"
    using live_inv_run_ops [OF live_inv_init, of sel ros url token] assms by simp
  note I = live_invD [OF this]
  have "d \<notin> set (quit_calls (trace w))" if "get_driver s self = Some d" for s d
  proof -
    from that have "(s, d) \<in> set (drivers self)" by (auto simp: get_driver_def dest: map_of_SomeD)
    then have "d \<in> snd ` set (drivers self)" by (rule image_eqI [rotated]) simp
    then show ?thesis by (rule I(3))
  qed
  moreover have "ro = Close s \<or> ro = CloseAll"
    if "get_driver s self \<noteq> None" "get_driver s (fst (run_op sel ro (self, w))) = None" for ro s
    using run_op_removes [of s "(self, w)" sel ro] that by simp
  ultimately show ?thesis by blast
qed

text \<open>
  C6 after create, create again, close and create of another session.
\<close>

theorem registry_entries_live_witness:
  "run_ops sel_ok [Create ''s1'' ''chrome'', Create ''s1'' ''chrome'', Close ''s1'', Create ''s2'' ''chrome'']
     (BrowserlessManager_init ''http://localhost:3000/'' None, fresh_world) =
   (\<lparr>browserless_url = ''http://localhost:3000'', auth_token = None, drivers = [(''s2'', 2)]\<rparr>,
    \<lparr>trace = [EvRemote (ExecutorUrl ''http://localhost:3000/webdriver'')
                 (ChromeOptions [''--no-sandbox'', ''--disable-dev-shm-usage'', ''--disable-gpu'']),
              EvRemote (ExecutorUrl ''http://localhost:3000/webdriver'')
                 (ChromeOptions [''--no-sandbox'', ''--disable-dev-shm-usage'', ''--disable-gpu'']),
              EvQuit 1,
              EvRemote (ExecutorUrl ''http://localhost:3000/webdriver'')
                 (ChromeOptions [''--no-sandbox'', ''--disable-dev-shm-usage'', ''--disable-gpu''])],
      next_handle = 3\<rparr>) \<and>
   get_driver ''s2'' \<lparr>browserless_url = ''http://localhost:3000'', auth_token = None, drivers = [(''s2'', 2)]\<rparr> = Some 2 \<and>
   2 \<notin> set (quit_calls [EvRemote (ExecutorUrl ''http://localhost:3000/webdriver'')
                 (ChromeOptions [''--no-sandbox'', ''--disable-dev-shm-usage'', ''--disable-gpu'']),
              EvRemote (ExecutorUrl ''http://localhost:3000/webdriver'')
                 (ChromeOptions [''--no-sandbox'', ''--disable-dev-shm-usage'', ''--disable-gpu'']),
              EvQuit 1,
              EvRemote (ExecutorUrl ''http://localhost:3000/webdriver'')
                 (ChromeOptions [''--no-sandbox'', ''--disable-dev-shm-usage'', ''--disable-gpu''])]) \<and>
   get_driver ''s2'' (fst (run_op sel_ok (Close ''s2'')
     (\<lparr>browserless_url = ''http://localhost:3000'', auth_token = None, drivers = [(''s2'', 2)]\<rparr>,
      \<lparr>trace = [], next_handle = 3\<rparr>))) = None"
proof -
  note T = registry_entries_live [OF run_ops_eval]
  have g: "get_driver ''s2'' \<lparr>browserless_url = ''http://localhost:3000'', auth_token = None, drivers = [(''s2'', 2)]\<rparr> = Some 2"
    by (simp add: get_driver_def)
  from T g have "2 \<notin> set (quit_calls (trace \<lparr>trace = [EvRemote (ExecutorUrl ''http://localhost:3000/webdriver'')
                 (ChromeOptions [''--no-sandbox'', ''--disable-dev-shm-usage'', ''--disable-gpu'']),
              EvRemote (ExecutorUrl ''http://localhost:3000/webdriver'')
                 (ChromeOptions [''--no-sandbox'', ''--disable-dev-shm-usage'', ''--disable-gpu'']),
              EvQuit 1,
              EvRemote (ExecutorUrl ''http://localhost:3000/webdriver'')
                 (ChromeOptions [''--no-sandbox'', ''--disable-dev-shm-usage'', ''--disable-gpu''])],
      next_handle = 3\<rparr>))"
    by blast
  moreover have "get_driver ''s2'' (fst (run_op sel_ok (Close ''s2'')
     (\<lparr>browserless_url = ''http://localhost:3000'', auth_token = None, drivers = [(''s2'', 2)]\<rparr>,
      \<lparr>trace = [], next_handle = 3\<rparr>))) = None"
    by (simp add: get_driver_close)
  ultimately show ?thesis using run_ops_eval g by simp
qed

subsection \<open>C7\<close>

text \<open>
  C7, as the code has it. On the first call of \<^verbatim>\<open>get_browserless_manager\<close> (the global is
  \<^verbatim>\<open>None\<close>): when \<^verbatim>\<open>BROWSERLESS_URL\<close> is unset or empty, the call raises the \<^verbatim>\<open>ValueError\<close>
  and the process is as it was, with no registry and no call to the client; when it is set
  to a string that is not empty, the call returns a new registry whose endpoint is that
  string without its trailing slashes, whose token is \<^verbatim>\<open>BROWSERLESS_TOKEN\<close> as read (or
  \<^verbatim>\<open>None\<close>), and whose dictionary is empty, and no call reaches the client.
\<close>

theorem accessor_configuration:
  assumes "browserless_manager st = None"
  shows "((environ st ''BROWSERLESS_URL'' = None \<or> environ st ''BROWSERLESS_URL'' = Some []) \<longrightarrow>
            get_browserless_manager st =
              (Inl (ValueError ''BROWSERLESS_URL environment variable is required''), st)) \<and>
         (\<forall>url. environ st ''BROWSERLESS_URL'' = Some url \<and> url \<noteq> [] \<longrightarrow>
            (\<exists>st'. get_browserless_manager st = (Inr (next_object st), st') \<and>
               browserless_manager st' = Some (next_object st) \<and>
               objects st' (next_object st) =
                 \<lparr>browserless_url = rstrip CHR ''/'' url,
                  auth_token = environ st ''BROWSERLESS_TOKEN'', drivers = []\<rparr> \<and>
               world_of st' = world_of st))"
  using assms
  by (auto simp: get_browserless_manager_def Let_def BrowserlessManager_init_def)

text \<open>
  C7 as stated fails when \<^verbatim>\<open>BROWSERLESS_URL\<close> is set to the empty string: the variable is
  set, and construction raises the configuration error.
\<close>

theorem empty_url_is_refused:
  "browserless_manager (st_boot\<lparr>environ := [''BROWSERLESS_URL'' \<mapsto> '''']\<rparr>) = None \<and>
   environ (st_boot\<lparr>environ := [''BROWSERLESS_URL'' \<mapsto> '''']\<rparr>) ''BROWSERLESS_URL'' = Some '''' \<and>
   get_browserless_manager (st_boot\<lparr>environ := [''BROWSERLESS_URL'' \<mapsto> '''']\<rparr>) =
     (Inl (ValueError ''BROWSERLESS_URL environment variable is required''),
      st_boot\<lparr>environ := [''BROWSERLESS_URL'' \<mapsto> '''']\<rparr>)"
  by (simp add: get_browserless_manager_def st_boot_def)

text \<open>
  C7 with endpoint and token set, and with an empty environment.
\<close>

theorem accessor_configuration_witness:
  "browserless_manager st_boot = None \<and>
   environ (st_boot\<lparr>environ := (environ st_boot)(''BROWSERLESS_TOKEN'' \<mapsto> ''tok'')\<rparr>) ''BROWSERLESS_URL''
     = Some ''http://localhost:3000/'' \<and>
   fst (get_browserless_manager (st_boot\<lparr>environ := (environ st_boot)(''BROWSERLESS_TOKEN'' \<mapsto> ''tok'')\<rparr>))
     = Inr 0 \<and>
   objects (snd (get_browserless_manager
       (st_boot\<lparr>environ := (environ st_boot)(''BROWSERLESS_TOKEN'' \<mapsto> ''tok'')\<rparr>))) 0 =
     \<lparr>browserless_url = ''http://localhost:3000'', auth_token = Some ''tok'', drivers = []\<rparr> \<and>
   environ (st_boot\<lparr>environ := Map.empty\<rparr>) ''BROWSERLESS_URL'' = None \<and>
   get_browserless_manager (st_boot\<lparr>environ := Map.empty\<rparr>) =
     (Inl (ValueError ''BROWSERLESS_URL environment variable is required''),
      st_boot\<lparr>environ := Map.empty\<rparr>)"
proof -
  let ?tok = "st_boot\<lparr>environ := (environ st_boot)(''BROWSERLESS_TOKEN'' \<mapsto> ''tok'')\<rparr>"
  let ?none = "st_boot\<lparr>environ := Map.empty\<rparr>"
  have a: "browserless_manager st_boot = None" by (simp add: st_boot_def)
  have a1: "browserless_manager ?tok = None" by (simp add: st_boot_def)
  have a2: "browserless_manager ?none = None" by (simp add: st_boot_def)
  have u: "environ ?tok ''BROWSERLESS_URL'' = Some ''http://localhost:3000/''"
    by (simp add: st_boot_def)
  have t: "environ ?tok ''BROWSERLESS_TOKEN'' = Some ''tok''" by (simp add: st_boot_def)
  have n: "next_object ?tok = 0" by (simp add: st_boot_def)
  have e: "environ ?none ''BROWSERLESS_URL'' = None" by simp
  from accessor_configuration [OF a1] u obtain st' where
    s: "get_browserless_manager ?tok = (Inr (next_object ?tok), st')"
    and o: "objects st' (next_object ?tok) =
      \<lparr>browserless_url = rstrip CHR ''/'' ''http://localhost:3000/'',
       auth_token = environ ?tok ''BROWSERLESS_TOKEN'', drivers = []\<rparr>"
    by blast
  from s n have r1: "fst (get_browserless_manager ?tok) = Inr 0" by simp
  from s o n t have r2: "objects (snd (get_browserless_manager ?tok)) 0 =
      \<lparr>browserless_url = ''http://localhost:3000'', auth_token = Some ''tok'', drivers = []\<rparr>"
    by (simp add: rstrip_eval)
  from accessor_configuration [OF a2] e have r3: "get_browserless_manager ?none =
      (Inl (ValueError ''BROWSERLESS_URL environment variable is required''), ?none)"
    by blast
  from a u r1 r2 e r3 show ?thesis by blast
qed

subsection \<open>C8\<close>

text \<open>
  C8. Once \<^verbatim>\<open>get_browserless_manager\<close> has returned a registry, every later call returns
  the same object, after any sequence of tool calls and under any environment: the
  reference is the same, the process is unchanged by the call, and no further registry
  object was allocated.
\<close>

theorem accessor_singleton:
  assumes "get_browserless_manager st = (Inr manager, st1)"
  shows "browserless_manager st1 = Some manager \<and>
         (\<forall>cs env'.
            get_browserless_manager ((run_calls sel cs st1)\<lparr>environ := env'\<rparr>) =
              (Inr manager, (run_calls sel cs st1)\<lparr>environ := env'\<rparr>) \<and>
            next_object (run_calls sel cs st1) = next_object st1)"
proof -
  from assms have m: "browserless_manager st1 = Some manager" by (rule gbm_result)
  have "get_browserless_manager ((run_calls sel cs st1)\<lparr>environ := env'\<rparr>) =
          (Inr manager, (run_calls sel cs st1)\<lparr>environ := env'\<rparr>) \<and>
        next_object (run_calls sel cs st1) = next_object st1" for cs env'
  proof -
    from run_calls_globals [OF m, of sel cs] have g: "same_globals st1 (run_calls sel cs st1)" .
    with m have "browserless_manager ((run_calls sel cs st1)\<lparr>environ := env'\<rparr>) = Some manager"
      by (simp add: same_globals_def)
    then have "get_browserless_manager ((run_calls sel cs st1)\<lparr>environ := env'\<rparr>) =
          (Inr manager, (run_calls sel cs st1)\<lparr>environ := env'\<rparr>)" by (rule gbm_present)
    with g show ?thesis by (simp add: same_globals_def)
  qed
  with m show ?thesis by blast
qed

text \<open>
  C8 from the process that has read nothing yet, with the environment emptied before the
  second call.
\<close>

theorem accessor_singleton_witness:
  "fst (get_browserless_manager st_boot) = Inr 0 \<and>
   fst (get_browserless_manager
     ((run_calls sel_ok [(NavigateToUrl ''https://example.com'', ''s1''), (CloseBrowser, ''s1'')]
        (snd (get_browserless_manager st_boot)))\<lparr>environ := Map.empty\<rparr>)) = Inr 0 \<and>
   next_object (run_calls sel_ok [(NavigateToUrl ''https://example.com'', ''s1''), (CloseBrowser, ''s1'')]
        (snd (get_browserless_manager st_boot))) = 1"
proof -
  let ?cs = "[(NavigateToUrl ''https://example.com'', ''s1''), (CloseBrowser, ''s1'')]"
  let ?st1 = "snd (get_browserless_manager st_boot)"
  have g: "get_browserless_manager st_boot = (Inr 0, ?st1)" by (simp add: gbm_boot)
  note T = accessor_singleton [OF g, of sel_ok]
  from T have "get_browserless_manager ((run_calls sel_ok ?cs ?st1)\<lparr>environ := Map.empty\<rparr>) =
      (Inr 0, (run_calls sel_ok ?cs ?st1)\<lparr>environ := Map.empty\<rparr>)" by blast
  then have r2: "fst (get_browserless_manager ((run_calls sel_ok ?cs ?st1)\<lparr>environ := Map.empty\<rparr>)) = Inr 0"
    by (simp only: fst_conv)
  from T have "next_object (run_calls sel_ok ?cs ?st1) = next_object ?st1" by blast
  moreover have "next_object ?st1 = 1" by (simp add: gbm_boot)
  ultimately have r3: "next_object (run_calls sel_ok ?cs ?st1) = 1" by (simp only:)
  have r1: "fst (get_browserless_manager st_boot) = Inr 0" by (simp add: gbm_boot)
  from r1 r2 r3 show ?thesis by blast
qed

subsection \<open>C9\<close>

text \<open>
  C9, as the code has it. The table has the eight names of the enumeration, and each
  resolves to its own locator. A strategy whose lower-case form is none of the eight
  resolves to \<^verbatim>\<open>By.CSS_SELECTOR\<close>. \<^verbatim>\<open>find_element\<close> and \<^verbatim>\<open>click_element\<close>, with a session in
  place, first call \<^verbatim>\<open>driver.find_element\<close> with the locator so resolved, whatever the
  strategy string is.
\<close>

theorem strategy_resolution:
  "map fst by_method_table =
     [''css'', ''xpath'', ''id'', ''name'', ''class_name'', ''tag_name'', ''link_text'',
      ''partial_link_text''] \<and>
   by_method ''css'' = CSS_SELECTOR \<and> by_method ''xpath'' = XPATH \<and> by_method ''id'' = ID \<and>
   by_method ''name'' = NAME \<and> by_method ''class_name'' = CLASS_NAME \<and>
   by_method ''tag_name'' = TAG_NAME \<and> by_method ''link_text'' = LINK_TEXT \<and>
   by_method ''partial_link_text'' = PARTIAL_LINK_TEXT \<and>
   (lower by_arg \<notin> set (map fst by_method_table) \<longrightarrow> by_method by_arg = CSS_SELECTOR) \<and>
   (get_browserless_manager st = (Inr manager, st0) \<and>
    get_driver session_id (objects st0 manager) = Some d \<longrightarrow>
      (\<exists>suf. trace (world_of (snd (find_element sel selector by_arg session_id st))) =
         trace (world_of st0) @ EvFindElement d (by_method by_arg) selector # suf) \<and>
      (\<exists>suf. trace (world_of (snd (click_element sel selector by_arg session_id st))) =
         trace (world_of st0) @ EvFindElement d (by_method by_arg) selector # suf))"
proof -
  have names: "by_method ''css'' = CSS_SELECTOR \<and> by_method ''xpath'' = XPATH \<and> by_method ''id'' = ID \<and>
      by_method ''name'' = NAME \<and> by_method ''class_name'' = CLASS_NAME \<and>
      by_method ''tag_name'' = TAG_NAME \<and> by_method ''link_text'' = LINK_TEXT \<and>
      by_method ''partial_link_text'' = PARTIAL_LINK_TEXT"
    by (simp add: by_method_def lower_names by_method_table_def)
  have fallback: "by_method by_arg = CSS_SELECTOR" if "lower by_arg \<notin> set (map fst by_method_table)"
  proof -
    from that have "map_of by_method_table (lower by_arg) = None"
      by (simp add: map_of_eq_None_iff)
    then show ?thesis by (simp add: by_method_def)
  qed
  have tools: "(\<exists>suf. trace (world_of (snd (find_element sel selector by_arg session_id st))) =
         trace (world_of st0) @ EvFindElement d (by_method by_arg) selector # suf) \<and>
      (\<exists>suf. trace (world_of (snd (click_element sel selector by_arg session_id st))) =
         trace (world_of st0) @ EvFindElement d (by_method by_arg) selector # suf)"
    if m: "get_browserless_manager st = (Inr manager, st0)"
      and d: "get_driver session_id (objects st0 manager) = Some d"
  proof -
    from find_element_present [OF m d, of sel selector by_arg] obtain suf1 where
      "snd (find_element sel selector by_arg session_id st) =
         st0\<lparr>world_of := (world_of st0)\<lparr>trace := trace (world_of st0)
                @ EvFindElement d (by_method by_arg) selector # suf1\<rparr>\<rparr>" by blast
    then have a: "trace (world_of (snd (find_element sel selector by_arg session_id st))) =
         trace (world_of st0) @ EvFindElement d (by_method by_arg) selector # suf1" by simp
    from click_element_present [OF m d, of sel selector by_arg] obtain suf2 where
      "snd (click_element sel selector by_arg session_id st) =
         st0\<lparr>world_of := (world_of st0)\<lparr>trace := trace (world_of st0)
                @ EvFindElement d (by_method by_arg) selector # suf2\<rparr>\<rparr>" by blast
    then have b: "trace (world_of (snd (click_element sel selector by_arg session_id st))) =
         trace (world_of st0) @ EvFindElement d (by_method by_arg) selector # suf2" by simp
    from a b show ?thesis by blast
  qed
  have tbl: "map fst by_method_table =
     [''css'', ''xpath'', ''id'', ''name'', ''class_name'', ''tag_name'', ''link_text'',
      ''partial_link_text'']" by (simp add: by_method_table_def)
  from tbl names fallback tools show ?thesis by blast
qed

text \<open>
  C9 as stated fails at \<^verbatim>\<open>XPATH\<close>: the string is none of the eight names, and it resolves
  to \<^verbatim>\<open>By.XPATH\<close>, not to the CSS fallback.
\<close>

theorem uppercase_strategy_is_recognised: "''XPATH'' \<notin> set (map fst by_method_table) \<and> by_method ''XPATH'' = XPATH"
  by (simp add: by_method_def by_method_table_def lower_XPATH)

text \<open>
  C9 at the strategy \<^verbatim>\<open>unknown_strategy\<close>.
\<close>

theorem strategy_resolution_witness:
  "lower ''unknown_strategy'' \<notin> set (map fst by_method_table) \<and>
   by_method ''unknown_strategy'' = CSS_SELECTOR \<and>
   get_browserless_manager st_session = (Inr 0, st_session) \<and>
   get_driver ''s1'' (objects st_session 0) = Some 0 \<and>
   (\<exists>suf. trace (world_of (snd (find_element sel_ok ''h1'' ''unknown_strategy'' ''s1'' st_session))) =
      EvFindElement 0 CSS_SELECTOR ''h1'' # suf) \<and>
   (\<exists>suf. trace (world_of (snd (click_element sel_ok ''h1'' ''unknown_strategy'' ''s1'' st_session))) =
      EvFindElement 0 CSS_SELECTOR ''h1'' # suf)"
proof -
  have a: "lower ''unknown_strategy'' \<notin> set (map fst by_method_table)"
    by (simp add: lower_unknown by_method_table_def)
  have b: "get_browserless_manager st_session = (Inr 0, st_session) \<and>
      get_driver ''s1'' (objects st_session 0) = Some 0"
    by (simp add: gbm_session st_session_simps get_driver_def)
  note T = strategy_resolution [of "''unknown_strategy''" st_session 0 st_session "''s1''" 0 sel_ok "''h1''"]
  from T a have c: "by_method ''unknown_strategy'' = CSS_SELECTOR" by blast
  from T b have "(\<exists>suf. trace (world_of (snd (find_element sel_ok ''h1'' ''unknown_strategy'' ''s1'' st_session))) =
         trace (world_of st_session) @ EvFindElement 0 (by_method ''unknown_strategy'') ''h1'' # suf) \<and>
      (\<exists>suf. trace (world_of (snd (click_element sel_ok ''h1'' ''unknown_strategy'' ''s1'' st_session))) =
         trace (world_of st_session) @ EvFindElement 0 (by_method ''unknown_strategy'') ''h1'' # suf)"
    by blast
  then have d: "(\<exists>suf. trace (world_of (snd (find_element sel_ok ''h1'' ''unknown_strategy'' ''s1'' st_session))) =
         EvFindElement 0 CSS_SELECTOR ''h1'' # suf) \<and>
      (\<exists>suf. trace (world_of (snd (click_element sel_ok ''h1'' ''unknown_strategy'' ''s1'' st_session))) =
         EvFindElement 0 CSS_SELECTOR ''h1'' # suf)"
    by (simp add: c st_session_simps)
  from a b c d show ?thesis by blast
qed

subsection \<open>C10\<close>

text \<open>
  C10. A strategy string and its lower-case form resolve to the same locator.
\<close>

theorem strategy_case_insensitive: "by_method by_arg = by_method (lower by_arg)"
  by (simp add: by_method_def lower_idem)

text \<open>
  C10 at \<^verbatim>\<open>XPATH\<close>.
\<close>

theorem strategy_case_insensitive_witness: "by_method ''XPATH'' = by_method (lower ''XPATH'') \<and> by_method ''XPATH'' = XPATH"
  using strategy_case_insensitive [of "''XPATH''"] by (simp add: by_method_def by_method_table_def lower_XPATH)

end
